theory Spec2Isabelle
  imports Main "HOL-Library.Sublist" "HOL-Library.Char_ord" "HOL-Library.List_Lexorder"
begin

section \<open>Canonical node model\<close>

text \<open>
  Every extractor of the indexer produces Python dictionaries with the keys
  \<^verbatim>\<open>title\<close>, \<^verbatim>\<open>type\<close>, \<^verbatim>\<open>start_line\<close>, \<^verbatim>\<open>end_line\<close>, \<^verbatim>\<open>signature\<close>,
  \<^verbatim>\<open>docstring\<close>, \<^verbatim>\<open>decorators\<close>, \<^verbatim>\<open>text\<close>, \<^verbatim>\<open>summary\<close>, \<^verbatim>\<open>prefix_summary\<close>,
  \<^verbatim>\<open>node_id\<close>, \<^verbatim>\<open>path\<close> and \<^verbatim>\<open>nodes\<close>.  A key that a dictionary does not carry is
  \<open>None\<close> here (\<^verbatim>\<open>dict.get\<close> treats an absent key and a key bound to \<^verbatim>\<open>None\<close>
  alike in every place the code reads one).  The key \<^verbatim>\<open>type\<close> only ever holds one of
  twelve string constants, which are the constructors of \<open>kind\<close>; the key \<^verbatim>\<open>text\<close> is
  the field \<open>node_text\<close> and the key \<^verbatim>\<open>type\<close> the field \<open>ntype\<close>.
\<close>

datatype kind = K_directory | K_file | K_class | K_struct | K_namespace | K_interface
  | K_enum | K_object | K_function | K_method | K_import | K_imports

record attrs =
  title :: string
  ntype :: kind
  start_line :: "int option"
  end_line :: "int option"
  signature :: "string option"
  docstring :: "string option"
  decorators :: "string list option"
  node_text :: "string option"
  summary :: "string option"
  prefix_summary :: "string option"
  node_id :: "string option"
  path :: "string option"

text \<open>The key \<^verbatim>\<open>nodes\<close> is deleted by thinning, hence optional as well.\<close>

datatype node = Node (attrs: attrs) (nodes: "node list option")

definition newline :: char where
  "newline = CHR 0x0A"

text \<open>\<^verbatim>\<open>d.get(key, default)\<close>\<close>

definition get_or :: "'a option \<Rightarrow> 'a \<Rightarrow> 'a" where
  "get_or v d = (case v of None \<Rightarrow> d | Some x \<Rightarrow> x)"

definition endswith :: "string \<Rightarrow> string \<Rightarrow> bool" where
  "endswith s suf = suffix suf s"

definition startswith :: "string \<Rightarrow> string \<Rightarrow> bool" where
  "startswith s pre = prefix pre s"

section \<open>Thinning engine\<close>

text \<open>
  \<^verbatim>\<open>tree_thinning_for_code\<close> of \<^verbatim>\<open>page_index_code.py\<close>.  The token counter
  \<^verbatim>\<open>count_tokens(text, model)\<close> lives outside the indexer and is a parameter.
  The Python mutates the dictionaries in place and returns the same object; the tree has
  no sharing, so the model returns the new tree.
\<close>

fun get_node_tokens :: "(string \<Rightarrow> string \<Rightarrow> int) \<Rightarrow> string \<Rightarrow> node \<Rightarrow> int" where
  "get_node_tokens count_tokens model (Node a None) =
     (let txt = get_or (node_text a) [] in if txt \<noteq> [] then count_tokens txt model else 0)"
| "get_node_tokens count_tokens model (Node a (Some cs)) =
     (let txt = get_or (node_text a) [];
          total = (if txt \<noteq> [] then count_tokens txt model else 0)
      in total + sum_list (map (get_node_tokens count_tokens model) cs))"

text \<open>One round of the loop that builds \<^verbatim>\<open>merged_text\<close>.\<close>

definition merge_child :: "string \<Rightarrow> node \<Rightarrow> string" where
  "merge_child merged_text child =
     (let child_text = get_or (node_text (attrs child)) [] in
      if child_text \<noteq> [] then
        (if merged_text \<noteq> [] \<and> \<not> endswith merged_text [newline]
         then merged_text @ [newline] else merged_text) @ child_text
      else merged_text)"

fun thin_node :: "(string \<Rightarrow> string \<Rightarrow> int) \<Rightarrow> string \<Rightarrow> int \<Rightarrow> node \<Rightarrow> node" where
  "thin_node count_tokens model min_token_threshold (Node a None) = Node a None"
| "thin_node count_tokens model min_token_threshold (Node a (Some [])) = Node a (Some [])"
| "thin_node count_tokens model min_token_threshold (Node a (Some (c # cs))) =
     (let ns = map (thin_node count_tokens model min_token_threshold) (c # cs);
          total_tokens = get_node_tokens count_tokens model (Node a (Some ns))
      in if total_tokens < min_token_threshold \<and> ntype a \<in> {K_class, K_function, K_method}
         then Node (a\<lparr>node_text := Some (foldl merge_child (get_or (node_text a) []) ns)\<rparr>) None
         else Node a (Some ns))"

definition tree_thinning_for_code ::
  "(string \<Rightarrow> string \<Rightarrow> int) \<Rightarrow> node \<Rightarrow> int \<Rightarrow> string \<Rightarrow> node" where
  "tree_thinning_for_code count_tokens structure min_token_threshold model =
     thin_node count_tokens model min_token_threshold structure"

text \<open>The test that decides whether a node with thinned children \<open>ns\<close> is merged.\<close>

definition mergeable ::
  "(string \<Rightarrow> string \<Rightarrow> int) \<Rightarrow> string \<Rightarrow> int \<Rightarrow> attrs \<Rightarrow> node list \<Rightarrow> bool" where
  "mergeable ct m thr a ns \<longleftrightarrow>
     get_node_tokens ct m (Node a (Some ns)) < thr \<and> ntype a \<in> {K_class, K_function, K_method}"

section \<open>Summary pipeline\<close>

text \<open>
  Errors are values.  \<open>ValueError\<close> is what \<^verbatim>\<open>code_to_tree\<close> raises itself;
  \<open>RequestError\<close> stands for whatever exception a failed request to the language
  model raises.
\<close>

datatype error = ValueError string | RequestError string

text \<open>
  \<^verbatim>\<open>str.isspace\<close> on the code points below 256, which is also what \<^verbatim>\<open>\s\<close> matches
  there.  Strings are lists of 8-bit characters, read as code points.
\<close>

definition is_space :: "char \<Rightarrow> bool" where
  "is_space c \<longleftrightarrow> c \<in> {CHR 0x09, CHR 0x0A, CHR 0x0B, CHR 0x0C, CHR 0x0D,
        CHR 0x1C, CHR 0x1D, CHR 0x1E, CHR 0x1F, CHR 0x20, CHR 0x85, CHR 0xA0}"

text \<open>\<^verbatim>\<open>str.strip()\<close>\<close>

definition strip :: "string \<Rightarrow> string" where
  "strip s = rev (dropWhile is_space (rev (dropWhile is_space s)))"

text \<open>The string that the key \<^verbatim>\<open>type\<close> holds.\<close>

definition type_name :: "kind \<Rightarrow> string" where
  "type_name k = (case k of K_directory \<Rightarrow> ''directory'' | K_file \<Rightarrow> ''file''
     | K_class \<Rightarrow> ''class'' | K_struct \<Rightarrow> ''struct'' | K_namespace \<Rightarrow> ''namespace''
     | K_interface \<Rightarrow> ''interface'' | K_enum \<Rightarrow> ''enum'' | K_object \<Rightarrow> ''object''
     | K_function \<Rightarrow> ''function'' | K_method \<Rightarrow> ''method'' | K_import \<Rightarrow> ''import''
     | K_imports \<Rightarrow> ''imports'')"

text \<open>The prompt that \<^verbatim>\<open>get_code_node_summary\<close> builds for a node above the threshold.\<close>

definition summary_prompt :: "attrs \<Rightarrow> string" where
  "summary_prompt a =
     (let node_text = get_or (node_text a) [];
          signature = get_or (signature a) [];
          docstring = get_or (docstring a) []
      in ''You are given a Python '' @ type_name (ntype a)
         @ ''. Generate a concise one-sentence summary of what it does.'' @ [newline, newline]
         @ (if signature \<noteq> [] then ''Signature: '' @ signature else [])
         @ [newline]
         @ (if docstring \<noteq> [] then ''Docstring: '' @ docstring else [])
         @ [newline, newline] @ ''Code:'' @ [newline]
         @ take 3000 node_text @ (if length node_text > 3000 then ''...'' else [])
         @ [newline, newline] @ ''Directly return the summary, do not include any other text.'')"

text \<open>
  \<^verbatim>\<open>get_code_node_summary\<close>.  The model call \<^verbatim>\<open>ChatGPT_API_async(model, prompt)\<close> is
  an outside collaborator and a parameter; \<open>Inl\<close> is a request that failed.
\<close>

definition get_code_node_summary ::
  "(string \<Rightarrow> string \<Rightarrow> int) \<Rightarrow> (string \<Rightarrow> string \<Rightarrow> error + string)
     \<Rightarrow> node \<Rightarrow> int \<Rightarrow> string \<Rightarrow> error + string" where
  "get_code_node_summary count_tokens ChatGPT_API_async node summary_token_threshold model =
     (let node_text = get_or (node_text (attrs node)) [];
          docstring = get_or (docstring (attrs node)) [];
          num_tokens = count_tokens node_text model
      in if num_tokens < summary_token_threshold then
           (if docstring \<noteq> [] then Inr (takeWhile (\<lambda>c. c \<noteq> newline) (strip docstring))
            else Inr (if node_text \<noteq> [] then take 200 node_text else []))
         else ChatGPT_API_async model (summary_prompt (attrs node)))"

text \<open>
  Modelled from the spec: \<^verbatim>\<open>structure_to_list\<close> of \<^verbatim>\<open>utils.py\<close> is not part of the
  sources at hand.  The specification says that the pipeline "flattens the (already
  thinned) tree"; the model lists every node of a forest, a node before its children.
  The elements of the Python list are the dictionaries of the tree themselves.
\<close>

fun structure_to_list :: "node list \<Rightarrow> node list"
  and structure_to_list_node :: "node \<Rightarrow> node list" where
  "structure_to_list [] = []"
| "structure_to_list (n # ns) = structure_to_list_node n @ structure_to_list ns"
| "structure_to_list_node (Node a None) = [Node a None]"
| "structure_to_list_node (Node a (Some cs)) = Node a (Some cs) # structure_to_list cs"

text \<open>The kinds that \<^verbatim>\<open>generate_summaries_for_code_structure\<close> keeps in \<^verbatim>\<open>code_nodes\<close>.\<close>

definition summarised_kind :: "kind \<Rightarrow> bool" where
  "summarised_kind k \<longleftrightarrow> k \<in> {K_class, K_function, K_method, K_interface, K_enum, K_file}"

text \<open>
  \<^verbatim>\<open>await asyncio.gather(*tasks)\<close>: the results in the order of the tasks, or the
  exception of a task that failed.
\<close>

fun gather :: "(error + 'a) list \<Rightarrow> error + 'a list" where
  "gather [] = Inr []"
| "gather (Inl e # rs) = Inl e"
| "gather (Inr v # rs) = (case gather rs of Inl e \<Rightarrow> Inl e | Inr vs \<Rightarrow> Inr (v # vs))"

text \<open>\<^verbatim>\<open>node.get('nodes')\<close> as a condition: the key is there and the list is not empty.\<close>

definition truthy_nodes :: "node list option \<Rightarrow> bool" where
  "truthy_nodes ns = (case ns of None \<Rightarrow> False | Some [] \<Rightarrow> False | Some (c # cs) \<Rightarrow> True)"

text \<open>The body of the loop over \<^verbatim>\<open>zip(code_nodes, summaries)\<close>.\<close>

definition assign_one :: "attrs \<Rightarrow> node list option \<Rightarrow> string \<Rightarrow> attrs" where
  "assign_one a ns s =
     (if truthy_nodes ns then a\<lparr>prefix_summary := Some s\<rparr> else a\<lparr>summary := Some s\<rparr>)"

text \<open>
  The loop over \<^verbatim>\<open>zip(code_nodes, summaries)\<close> writes into the dictionaries of the
  tree.  \<open>assign_summaries\<close> walks the tree in the order of \<open>structure_to_list\<close> and
  hands the next summary to each node of a summarised kind; \<^verbatim>\<open>zip\<close> stops at the
  shorter list, so a node is left as it is once the summaries are used up.
\<close>

fun assign_summaries :: "node list \<Rightarrow> string list \<Rightarrow> node list \<times> string list"
  and assign_summaries_node :: "node \<Rightarrow> string list \<Rightarrow> node \<times> string list" where
  "assign_summaries [] ss = ([], ss)"
| "assign_summaries (n # ns) ss =
     (case assign_summaries_node n ss of (n', ss1) \<Rightarrow>
        (case assign_summaries ns ss1 of (ns', ss2) \<Rightarrow> (n' # ns', ss2)))"
| "assign_summaries_node (Node a None) ss =
     (if summarised_kind (ntype a) then
        (case ss of [] \<Rightarrow> (Node a None, [])
         | s # rest \<Rightarrow> (Node (assign_one a None s) None, rest))
      else (Node a None, ss))"
| "assign_summaries_node (Node a (Some cs)) ss =
     (if summarised_kind (ntype a) then
        (case ss of [] \<Rightarrow> (Node a (Some cs), [])
         | s # rest \<Rightarrow> (case assign_summaries cs rest of (cs', ss') \<Rightarrow>
               (Node (assign_one a (Some cs) s) (Some cs'), ss')))
      else (case assign_summaries cs ss of (cs', ss') \<Rightarrow> (Node a (Some cs'), ss')))"

text \<open>
  \<^verbatim>\<open>generate_summaries_for_code_structure\<close>.  The result is a pair: the tree as the
  call leaves it, and what the call returns (the tree) or raises.
\<close>

definition generate_summaries_for_code_structure ::
  "(string \<Rightarrow> string \<Rightarrow> int) \<Rightarrow> (string \<Rightarrow> string \<Rightarrow> error + string)
     \<Rightarrow> node \<Rightarrow> int \<Rightarrow> string \<Rightarrow> node \<times> (error + node)" where
  "generate_summaries_for_code_structure count_tokens ChatGPT_API_async structure
       summary_token_threshold model =
     (let nodes = structure_to_list [structure];
          code_nodes = filter (\<lambda>n. summarised_kind (ntype (attrs n))) nodes;
          tasks = map (\<lambda>node. get_code_node_summary count_tokens ChatGPT_API_async node
                         summary_token_threshold model) code_nodes
      in case gather tasks of
           Inl e \<Rightarrow> (structure, Inl e)
         | Inr summaries \<Rightarrow>
             (let structure' = fst (assign_summaries_node structure summaries)
              in (structure', Inr structure')))"

text \<open>\<^verbatim>\<open>preserve_imports_text\<close>, with its assignment to an imports node as \<open>keep_imports\<close>.\<close>

definition keep_imports :: "attrs \<Rightarrow> attrs" where
  "keep_imports a =
     (if ntype a = K_imports then a\<lparr>summary := Some (strip (get_or (node_text a) []))\<rparr> else a)"

fun preserve_imports_text :: "node \<Rightarrow> node" where
  "preserve_imports_text (Node a None) = Node (keep_imports a) None"
| "preserve_imports_text (Node a (Some cs)) =
     Node (keep_imports a) (Some (map preserve_imports_text cs))"

subsection \<open>Predicates on summaries\<close>

definition no_summaries :: "node \<Rightarrow> bool" where
  "no_summaries n \<longleftrightarrow> summary (attrs n) = None \<and> prefix_summary (attrs n) = None"

text \<open>Exactly one of the two keys, chosen by the children alone.\<close>

definition exactly_one_by_children :: "node \<Rightarrow> bool" where
  "exactly_one_by_children n \<longleftrightarrow>
     (if truthy_nodes (nodes n)
      then prefix_summary (attrs n) \<noteq> None \<and> summary (attrs n) = None
      else summary (attrs n) \<noteq> None \<and> prefix_summary (attrs n) = None)"

text \<open>What the stage leaves on a node, by its kind.\<close>

definition summaries_as_designed :: "node \<Rightarrow> bool" where
  "summaries_as_designed n \<longleftrightarrow>
     (if summarised_kind (ntype (attrs n)) then exactly_one_by_children n
      else if ntype (attrs n) = K_imports
        then summary (attrs n) = Some (strip (get_or (node_text (attrs n)) []))
             \<and> prefix_summary (attrs n) = None
      else summary (attrs n) = None \<and> prefix_summary (attrs n) = None)"

text \<open>
  The assignment as a map over the tree, when node \<open>n\<close> is given the summary \<open>f n\<close>;
  used to reason about \<open>assign_summaries\<close>.
\<close>

fun annotate :: "(node \<Rightarrow> string) \<Rightarrow> node \<Rightarrow> node" where
  "annotate f (Node a None) =
     Node (if summarised_kind (ntype a) then assign_one a None (f (Node a None)) else a) None"
| "annotate f (Node a (Some cs)) =
     Node (if summarised_kind (ntype a) then assign_one a (Some cs) (f (Node a (Some cs))) else a)
       (Some (map (annotate f) cs))"

definition code_nodes_of :: "node list \<Rightarrow> node list" where
  "code_nodes_of ns = filter (\<lambda>n. summarised_kind (ntype (attrs n))) (structure_to_list ns)"

subsection \<open>Sample inputs\<close>

definition mk_attrs :: "string \<Rightarrow> kind \<Rightarrow> int \<Rightarrow> int \<Rightarrow> string \<Rightarrow> attrs" where
  "mk_attrs t k s e txt = \<lparr>title = t, ntype = k, start_line = Some s, end_line = Some e,
     signature = None, docstring = None, decorators = None, node_text = Some txt,
     summary = None, prefix_summary = None, node_id = None, path = None\<rparr>"

text \<open>
  The tree of a Python file that holds the one line \<^verbatim>\<open>import os\<close>: a file node, its
  imports node, and the import statement below it.
\<close>

definition sample_file :: node where
  "sample_file = Node (mk_attrs ''a.py'' K_file 1 1 ''import os'')
     (Some [Node (mk_attrs ''Imports'' K_imports 1 1 ''import os'')
        (Some [Node (mk_attrs ''import os'' K_import 1 1 ''import os'') (Some [])])])"

text \<open>A token counter (one token per character) and two model endpoints.\<close>

definition length_tokens :: "string \<Rightarrow> string \<Rightarrow> int" where
  "length_tokens txt model = int (length txt)"

definition reply_fixed :: "string \<Rightarrow> string \<Rightarrow> error + string" where
  "reply_fixed model prompt = Inr ''Imports the os module.''"

definition reply_down :: "string \<Rightarrow> string \<Rightarrow> error + string" where
  "reply_down model prompt = Inl (RequestError ''connection refused'')"

section \<open>Heuristic scope scanner (Kotlin)\<close>

subsection \<open>The three patterns\<close>

text \<open>
  The patterns of \<^verbatim>\<open>extract_nodes_from_kotlin\<close> are anchored at the start of the line
  and have no choice that a later failure could revise: no alternative of a group is a
  prefix of another, and no keyword of a later group starts like a word of an earlier
  one.  Each is therefore read off from left to right.
\<close>

definition skip_ws :: "string \<Rightarrow> string" where
  "skip_ws s = dropWhile is_space s"

text \<open>The first word of \<open>ws\<close> that the string starts with, and what follows it.\<close>

fun first_word :: "string list \<Rightarrow> string \<Rightarrow> (string \<times> string) option" where
  "first_word [] s = None"
| "first_word (w # ws) s = (if prefix w s then Some (w, drop (length w) s) else first_word ws s)"

text \<open>\<^verbatim>\<open>[a-zA-Z0-9_]\<close>\<close>

definition is_name_char :: "char \<Rightarrow> bool" where
  "is_name_char c \<longleftrightarrow>
     (let n = (of_char c :: nat) in
        (97 \<le> n \<and> n \<le> 122) \<or> (65 \<le> n \<and> n \<le> 90) \<or> (48 \<le> n \<and> n \<le> 57) \<or> n = 95)"

text \<open>\<^verbatim>\<open>[a-zA-Z0-9_`]\<close>\<close>

definition is_fun_name_char :: "char \<Rightarrow> bool" where
  "is_fun_name_char c \<longleftrightarrow> is_name_char c \<or> (of_char c :: nat) = 96"

text \<open>
  \<^verbatim>\<open>(class|interface|object|enum\s+class)\<close>: the text of the group and what follows it.
\<close>

definition kind_keyword :: "string \<Rightarrow> (string \<times> string) option" where
  "kind_keyword s =
     (case first_word [''class'', ''interface'', ''object''] s of
        Some r \<Rightarrow> Some r
      | None \<Rightarrow>
          (if prefix ''enum'' s then
             (let r = drop 4 s; gap = takeWhile is_space r; r' = dropWhile is_space r
              in if gap \<noteq> [] \<and> prefix ''class'' r'
                 then Some (''enum'' @ gap @ ''class'', drop 5 r') else None)
           else None))"

text \<open>\<^verbatim>\<open>\s+(name)\<close> with a greedy, non-empty name over the characters \<open>ok\<close>.\<close>

definition spaced_name :: "(char \<Rightarrow> bool) \<Rightarrow> string \<Rightarrow> string option" where
  "spaced_name ok s =
     (let name = takeWhile ok (dropWhile is_space s)
      in if takeWhile is_space s \<noteq> [] \<and> name \<noteq> [] then Some name else None)"

text \<open>
  \<^verbatim>\<open>class_pattern.search(line)\<close>: groups 2, 3 and 4 of a match (the modifier, the kind
  keyword, the name).
\<close>

definition class_pattern_search :: "string \<Rightarrow> (string option \<times> string \<times> string) option" where
  "class_pattern_search line =
     (let s0 = skip_ws line;
          s1 = (case first_word [''private'', ''public'', ''protected'', ''internal''] s0 of
                  Some (w, r) \<Rightarrow> r | None \<Rightarrow> s0);
          s2 = skip_ws s1;
          m = first_word [''open'', ''data'', ''sealed'', ''annotation'', ''inner''] s2;
          s3 = (case m of Some (w, r) \<Rightarrow> r | None \<Rightarrow> s2);
          s4 = skip_ws s3
      in case kind_keyword s4 of
           None \<Rightarrow> None
         | Some (kind_type, r) \<Rightarrow>
             (case spaced_name is_name_char r of
                None \<Rightarrow> None
              | Some name \<Rightarrow> Some (map_option fst m, kind_type, name)))"

definition fun_modifiers :: "string list" where
  "fun_modifiers = [''private'', ''public'', ''protected'', ''internal'', ''override'',
     ''suspend'', ''abstract'', ''open'', ''inline'']"

lemma first_word_shorter:
  "first_word ws s = Some (w, r) \<Longrightarrow> [] \<notin> set ws \<Longrightarrow> length r < length s"
proof (induction ws)
  case Nil
  then show ?case by simp
next
  case (Cons v ws)
  show ?case
  proof (cases "prefix v s")
    case True
    with Cons.prems have "r = drop (length v) s" "v \<noteq> []" by auto
    moreover from True \<open>v \<noteq> []\<close> have "s \<noteq> []" by auto
    ultimately show ?thesis by simp
  next
    case False
    with Cons show ?thesis by simp
  qed
qed

text \<open>The starred group of modifiers, written one after the other without a gap.\<close>

function skip_modifiers :: "string \<Rightarrow> string" where
  "skip_modifiers s =
     (case first_word fun_modifiers s of None \<Rightarrow> s | Some (w, r) \<Rightarrow> skip_modifiers r)"
  by pat_completeness auto
termination
proof (relation "measure length")
  show "wf (measure length)" by simp
next
  fix s :: string and x2 x y
  assume "first_word fun_modifiers s = Some x2" and "(x, y) = x2"
  then have "first_word fun_modifiers s = Some (x, y)" by simp
  moreover have "[] \<notin> set fun_modifiers" by (simp add: fun_modifiers_def)
  ultimately have "length y < length s" by (rule first_word_shorter)
  then show "(y, s) \<in> measure length" by simp
qed

text \<open>\<^verbatim>\<open>fun_pattern.search(line)\<close>: group 2 of a match, the name.\<close>

definition fun_pattern_search :: "string \<Rightarrow> string option" where
  "fun_pattern_search line =
     (let s2 = skip_ws (skip_modifiers (skip_ws line))
      in if prefix ''fun'' s2 then spaced_name is_fun_name_char (drop 3 s2) else None)"

text \<open>\<^verbatim>\<open>import_pattern.match(stripped_line)\<close>\<close>

definition import_pattern_match :: "string \<Rightarrow> bool" where
  "import_pattern_match s =
     (let s0 = skip_ws s
      in prefix ''import'' s0 \<and> takeWhile is_space (drop 6 s0) \<noteq> [])"

subsection \<open>Brace counting\<close>

text \<open>
  \<^verbatim>\<open>re.sub(r'//.*', '', line)\<close>: from two slashes up to the next line break (the dot
  matches no line break).  The flag says that the scan is inside such a match.
\<close>

fun strip_line_comments :: "bool \<Rightarrow> string \<Rightarrow> string" where
  "strip_line_comments inside [] = []"
| "strip_line_comments True (c # cs) =
     (if c = newline then c # strip_line_comments False cs else strip_line_comments True cs)"
| "strip_line_comments False (c # cs) =
     (if c = CHR ''/'' \<and> prefix ''/'' cs then strip_line_comments True cs
      else c # strip_line_comments False cs)"

text \<open>
  A quote at the head of a match of \<^verbatim>\<open>".*?"\<close> has a second quote after it with no line
  break in between.
\<close>

definition closes :: "char \<Rightarrow> string \<Rightarrow> bool" where
  "closes q cs = (case dropWhile (\<lambda>c. c \<noteq> q \<and> c \<noteq> newline) cs of [] \<Rightarrow> False | d # ds \<Rightarrow> d = q)"

text \<open>
  \<^verbatim>\<open>re.sub(r'".*?"', '""', line)\<close>, and the same for the single quote: every match,
  from left to right, gives way to two quotes.  The flag says that the scan is inside a
  match, after its opening quote.
\<close>

fun blank_quoted :: "char \<Rightarrow> bool \<Rightarrow> string \<Rightarrow> string" where
  "blank_quoted q inside [] = []"
| "blank_quoted q True (c # cs) =
     (if c = q then blank_quoted q False cs else blank_quoted q True cs)"
| "blank_quoted q False (c # cs) =
     (if c = q \<and> closes q cs then q # q # blank_quoted q True cs
      else c # blank_quoted q False cs)"

text \<open>The line as \<^verbatim>\<open>count_braces\<close> counts it.\<close>

definition clean_line :: "string \<Rightarrow> string" where
  "clean_line line =
     blank_quoted (CHR 0x27) False (blank_quoted (CHR 0x22) False (strip_line_comments False line))"

definition count_braces :: "string \<Rightarrow> int" where
  "count_braces line =
     (let line = clean_line line
      in int (count_list line (CHR ''{'')) - int (count_list line (CHR ''}'')))"

subsection \<open>Nodes by reference\<close>

text \<open>
  The scanner keeps references to dictionaries that already hang in the tree and writes
  through them.  A reference is the path of the node: the index among the roots, then
  the index among the children, level by level.  Nodes are only ever appended, so a path
  keeps its meaning.
\<close>

fun get_at :: "node list \<Rightarrow> nat list \<Rightarrow> node option" where
  "get_at ns [] = None"
| "get_at ns [i] = (if i < length ns then Some (ns ! i) else None)"
| "get_at ns (i # j # p) =
     (if i < length ns then get_at (get_or (nodes (ns ! i)) []) (j # p) else None)"

fun update_at :: "(node \<Rightarrow> node) \<Rightarrow> nat list \<Rightarrow> node list \<Rightarrow> node list" where
  "update_at f [] ns = ns"
| "update_at f [i] ns = (if i < length ns then ns[i := f (ns ! i)] else ns)"
| "update_at f (i # j # p) ns =
     (if i < length ns
      then ns[i := Node (attrs (ns ! i)) (map_option (update_at f (j # p)) (nodes (ns ! i)))]
      else ns)"

text \<open>\<^verbatim>\<open>node['end_line'] = line_num\<close> and \<^verbatim>\<open>node['nodes'].append(new_node)\<close>\<close>

definition set_end_line :: "int \<Rightarrow> node \<Rightarrow> node" where
  "set_end_line line_num n = Node ((attrs n)\<lparr>end_line := Some line_num\<rparr>) (nodes n)"

definition append_child :: "node \<Rightarrow> node \<Rightarrow> node" where
  "append_child new_node n = Node (attrs n) (map_option (\<lambda>cs. cs @ [new_node]) (nodes n))"

subsection \<open>The scan\<close>

text \<open>An entry of \<^verbatim>\<open>stack\<close>; the innermost open scope is the head of the list.\<close>

record frame =
  node_ref :: "nat list"
  start_balance :: int

record scan_state =
  roots :: "node list"
  stack :: "frame list"
  current_brace_balance :: int
  import_start_line :: "int option"
  import_end_line :: "int option"

definition plain_attrs :: "string \<Rightarrow> kind \<Rightarrow> int option \<Rightarrow> int option \<Rightarrow> attrs" where
  "plain_attrs t k s e = \<lparr>title = t, ntype = k, start_line = s, end_line = e,
     signature = None, docstring = None, decorators = None, node_text = None,
     summary = None, prefix_summary = None, node_id = None, path = None\<rparr>"

text \<open>The pending run of imports becomes a node among the roots.\<close>

definition flush_imports :: "scan_state \<Rightarrow> scan_state" where
  "flush_imports st =
     (if import_start_line st \<noteq> None then
        st\<lparr>roots := roots st @
              [Node (plain_attrs ''Imports'' K_imports (import_start_line st) (import_end_line st))
                 (Some [])],
           import_start_line := None, import_end_line := None\<rparr>
      else st)"

text \<open>The loop \<^verbatim>\<open>while stack:\<close> that ends the scopes whose baseline is reached.\<close>

fun close_scopes :: "int \<Rightarrow> int \<Rightarrow> frame list \<Rightarrow> node list \<Rightarrow> frame list \<times> node list" where
  "close_scopes bal line_num [] ns = ([], ns)"
| "close_scopes bal line_num (fr # stk) ns =
     (if bal \<le> start_balance fr
      then close_scopes bal line_num stk (update_at (set_end_line line_num) (node_ref fr) ns)
      else (fr # stk, ns))"

text \<open>\<^verbatim>\<open>stack[-1]['node']['type']\<close>, if the stack is not empty.\<close>

definition top_type :: "frame list \<Rightarrow> node list \<Rightarrow> kind option" where
  "top_type stk ns =
     (case stk of [] \<Rightarrow> None
      | fr # rest \<Rightarrow> map_option (\<lambda>n. ntype (attrs n)) (get_at ns (node_ref fr)))"

text \<open>The node type that the text of group 3 stands for.\<close>

definition contains :: "string \<Rightarrow> string \<Rightarrow> bool" where
  "contains s sub = (\<exists>t \<in> set (suffixes s). prefix sub t)"

definition class_node_type :: "string \<Rightarrow> kind" where
  "class_node_type kind_type =
     (if contains kind_type ''interface'' then K_interface
      else if contains kind_type ''enum'' then K_enum
      else if contains kind_type ''object'' then K_object
      else K_class)"

text \<open>\<^verbatim>\<open>line.split('{')[0].strip()\<close>, without a final equals sign.\<close>

definition fun_signature :: "string \<Rightarrow> string" where
  "fun_signature line =
     (let signature = strip (takeWhile (\<lambda>c. c \<noteq> CHR ''{'') line)
      in if endswith signature ''='' then strip (butlast signature) else signature)"

text \<open>
  The branch \<^verbatim>\<open>if match_class: ... elif match_fun: ...\<close> that builds \<^verbatim>\<open>new_node\<close> from
  the two match results.
\<close>

definition new_definition ::
  "(string option \<times> string \<times> string) option \<Rightarrow> string option \<Rightarrow> string \<Rightarrow> int
     \<Rightarrow> kind option \<Rightarrow> node option" where
  "new_definition match_class match_fun line line_num parent_type =
     (case match_class of
        Some (kind_modifiers, kind_type, name) \<Rightarrow>
          Some (Node (plain_attrs name (class_node_type kind_type) (Some line_num) (Some line_num))
                  (Some []))
      | None \<Rightarrow>
          (case match_fun of
             Some name \<Rightarrow>
               Some (Node ((plain_attrs (name @ ''()'')
                       (if parent_type \<in> {Some K_class, Some K_interface, Some K_object, Some K_enum}
                        then K_method else K_function)
                       (Some line_num) (Some line_num))\<lparr>signature := Some (fun_signature line)\<rparr>)
                     (Some []))
           | None \<Rightarrow> None))"

text \<open>
  The new node goes below the innermost open scope, or among the roots; the result is
  the tree and the reference to the new node.
\<close>

definition attach :: "node \<Rightarrow> frame list \<Rightarrow> node list \<Rightarrow> node list \<times> nat list" where
  "attach new_node stk ns =
     (case stk of
        [] \<Rightarrow> (ns @ [new_node], [length ns])
      | fr # rest \<Rightarrow>
          (update_at (append_child new_node) (node_ref fr) ns,
           node_ref fr @ [case get_at ns (node_ref fr) of
                             None \<Rightarrow> 0 | Some n \<Rightarrow> length (get_or (nodes n) [])]))"

text \<open>The part of the loop body after the import test.\<close>

definition scan_code_line :: "scan_state \<Rightarrow> int \<Rightarrow> string \<Rightarrow> scan_state" where
  "scan_code_line st line_num line =
     (let balance_change = count_braces line;
          bal = current_brace_balance st + balance_change;
          (stk, ns) = close_scopes bal line_num (stack st) (roots st);
          match_class = class_pattern_search line;
          match_fun = fun_pattern_search line
      in case new_definition match_class match_fun line line_num (top_type stk ns) of
           None \<Rightarrow> st\<lparr>roots := ns, stack := stk, current_brace_balance := bal\<rparr>
         | Some new_node \<Rightarrow>
             (let (ns', ref) = attach new_node stk ns;
                  start_balance = bal - (if CHR ''{'' \<in> set line then 1 else 0)
              in st\<lparr>roots := ns',
                    stack := \<lparr>node_ref = ref, start_balance = start_balance\<rparr> # stk,
                    current_brace_balance := bal\<rparr>))"

text \<open>The body of \<^verbatim>\<open>for i, line in enumerate(lines)\<close> with \<open>line_num = i + 1\<close>.\<close>

definition scan_line :: "scan_state \<Rightarrow> int \<Rightarrow> string \<Rightarrow> scan_state" where
  "scan_line st line_num line =
     (let stripped_line = strip line in
      if import_pattern_match stripped_line then
        st\<lparr>import_start_line :=
              (if import_start_line st = None then Some line_num else import_start_line st),
           import_end_line := Some line_num\<rparr>
      else if stripped_line \<noteq> [] \<and> \<not> startswith stripped_line ''//''
              \<and> \<not> startswith stripped_line ''package''
      then scan_code_line (flush_imports st) line_num line
      else scan_code_line st line_num line)"

fun scan_lines :: "scan_state \<Rightarrow> int \<Rightarrow> string list \<Rightarrow> scan_state" where
  "scan_lines st line_num [] = st"
| "scan_lines st line_num (line # lines) = scan_lines (scan_line st line_num line) (line_num + 1) lines"

definition initial_scan_state :: scan_state where
  "initial_scan_state = \<lparr>roots = [], stack = [], current_brace_balance = 0,
     import_start_line = None, import_end_line = None\<rparr>"

definition extract_nodes_from_kotlin :: "string \<Rightarrow> string list \<Rightarrow> node list" where
  "extract_nodes_from_kotlin code_content lines =
     roots (flush_imports (scan_lines initial_scan_state 1 lines))"

subsection \<open>Sample lines\<close>


text \<open>
  Two files of four lines that differ in one character inside a string literal: a brace
  in the first, a letter in the second.
\<close>

definition dq :: char where "dq = CHR 0x22"

definition brace_in_literal :: "string list" where
  "brace_in_literal = [''fun f() = '' @ [dq] @ ''{'' @ [dq], '''', ''fun g() {'', ''}'']"

definition letter_in_literal :: "string list" where
  "letter_in_literal = [''fun f() = '' @ [dq] @ ''x'' @ [dq], '''', ''fun g() {'', ''}'']"

text \<open>Nodes of kind imports.\<close>

definition is_imports :: "node \<Rightarrow> bool" where
  "is_imports n \<longleftrightarrow> ntype (attrs n) = K_imports"

text \<open>An import, an empty line, an import, a statement.\<close>

definition sample_kotlin_lines :: "string list" where
  "sample_kotlin_lines = [''import a.b'', [], ''import c'', ''val x = 1'']"

section \<open>Exact-AST extractor (Python)\<close>

text \<open>
  The tree that \<^verbatim>\<open>ast.parse\<close> returns, as far as \<^verbatim>\<open>page_index_python.py\<close> reads it.
  An expression only ever reaches the extractor through \<^verbatim>\<open>ast.unparse\<close>, so it is kept
  as that text.  Import and ImportFrom statements are treated alike and are one
  constructor; \<open>imp_end_lineno\<close> is \<open>None\<close> when the attribute \<^verbatim>\<open>end_lineno\<close> is missing.
\<close>

record py_arg =
  arg :: string
  annotation :: "string option"

record py_arguments =
  posonlyargs :: "py_arg list"
  args :: "py_arg list"
  defaults :: "string list"
  vararg :: "py_arg option"
  kwonlyargs :: "py_arg list"
  kw_defaults :: "string option list"
  kwarg :: "py_arg option"

datatype py_decorator = Name string | Attribute string | Call string | OtherDecorator

record py_import =
  imp_unparse :: string
  imp_lineno :: int
  imp_end_lineno :: "int option"

datatype py_stmt =
    ClassDef string int int "py_decorator list" "py_stmt list"
  | FunctionDef bool string py_arguments "string option" int int "py_decorator list" "py_stmt list"
  | Import py_import
  | ExprConstantStr string
  | OtherStmt

text \<open>\<^verbatim>\<open>sep.join(parts)\<close>\<close>

fun join :: "string \<Rightarrow> string list \<Rightarrow> string" where
  "join sep [] = []"
| "join sep [p] = p"
| "join sep (p # q # ps) = p @ sep @ join sep (q # ps)"

definition arg_str :: "py_arg \<Rightarrow> string" where
  "arg_str a = arg a @ (case annotation a of None \<Rightarrow> [] | Some t \<Rightarrow> '': '' @ t)"

text \<open>The loop over \<^verbatim>\<open>enumerate(args.args)\<close>, which lines the defaults up from the end.\<close>

definition regular_arg_str :: "py_arguments \<Rightarrow> int \<Rightarrow> py_arg \<Rightarrow> string" where
  "regular_arg_str a i x =
     (let defaults_offset = int (length (args a)) - int (length (defaults a));
          default_idx = i - defaults_offset
      in arg_str x @
         (if default_idx \<ge> 0 \<and> default_idx < int (length (defaults a))
          then '' = '' @ defaults a ! nat default_idx else []))"

definition kwonly_arg_str :: "py_arguments \<Rightarrow> nat \<Rightarrow> py_arg \<Rightarrow> string" where
  "kwonly_arg_str a i x =
     arg_str x @
       (if i < length (kw_defaults a)
        then (case kw_defaults a ! i of None \<Rightarrow> [] | Some d \<Rightarrow> '' = '' @ d) else [])"

definition extract_signature :: "bool \<Rightarrow> string \<Rightarrow> py_arguments \<Rightarrow> string option \<Rightarrow> string" where
  "extract_signature is_async name a returns =
     (let parts =
            map arg_str (posonlyargs a) @ (if posonlyargs a \<noteq> [] then [''/''] else [])
            @ map (\<lambda>(i, x). regular_arg_str a (int i) x) (enumerate 0 (args a))
            @ (case vararg a of
                 Some v \<Rightarrow> [''*'' @ arg_str v]
               | None \<Rightarrow> (if kwonlyargs a \<noteq> [] then [''*''] else []))
            @ map (\<lambda>(i, x). kwonly_arg_str a i x) (enumerate 0 (kwonlyargs a))
            @ (case kwarg a of Some k \<Rightarrow> [''**'' @ arg_str k] | None \<Rightarrow> []);
          func_keyword = (if is_async then ''async def'' else ''def'');
          signature = func_keyword @ '' '' @ name @ ''('' @ join '', '' parts @ '')''
      in case returns of None \<Rightarrow> signature | Some r \<Rightarrow> signature @ '' -> '' @ r)"

definition extract_docstring :: "py_stmt list \<Rightarrow> string option" where
  "extract_docstring body = (case body of ExprConstantStr v # rest \<Rightarrow> Some v | _ \<Rightarrow> None)"

definition extract_decorators :: "py_decorator list \<Rightarrow> string list" where
  "extract_decorators decorator_list =
     concat (map (\<lambda>d. case d of Name i \<Rightarrow> [''@'' @ i] | Attribute u \<Rightarrow> [''@'' @ u]
                          | Call u \<Rightarrow> [''@'' @ u] | OtherDecorator \<Rightarrow> []) decorator_list)"

text \<open>What a loop keeps of a result that may be \<^verbatim>\<open>None\<close>.\<close>

definition opt_list :: "'a option \<Rightarrow> 'a list" where
  "opt_list r = (case r of None \<Rightarrow> [] | Some x \<Rightarrow> [x])"

text \<open>
  \<^verbatim>\<open>process_node\<close> of \<^verbatim>\<open>extract_nodes_from_python\<close>; the second argument says whether
  the parent being built is a class.
\<close>

fun process_node_python :: "py_stmt \<Rightarrow> bool \<Rightarrow> node option" where
  "process_node_python (ClassDef name lineno end_lineno decorator_list body) parent_is_class =
     Some (Node \<lparr>title = name, ntype = K_class, start_line = Some lineno,
                  end_line = Some end_lineno, signature = None,
                  docstring = extract_docstring body,
                  decorators = Some (extract_decorators decorator_list), node_text = None,
                  summary = None, prefix_summary = None, node_id = None, path = None\<rparr>
             (Some (concat (map (\<lambda>child. opt_list (process_node_python child True)) body))))"
| "process_node_python (FunctionDef is_async name a returns lineno end_lineno decorator_list body)
       parent_is_class =
     Some (Node \<lparr>title = name @ ''()'',
                  ntype = (if parent_is_class then K_method else K_function),
                  start_line = Some lineno, end_line = Some end_lineno,
                  signature = Some (extract_signature is_async name a returns),
                  docstring = extract_docstring body,
                  decorators = Some (extract_decorators decorator_list), node_text = None,
                  summary = None, prefix_summary = None, node_id = None, path = None\<rparr>
             (Some (concat (map (\<lambda>child. opt_list (process_node_python child False)) body))))"
| "process_node_python (Import i) parent_is_class = None"
| "process_node_python (ExprConstantStr v) parent_is_class = None"
| "process_node_python OtherStmt parent_is_class = None"

definition import_end :: "py_import \<Rightarrow> int" where
  "import_end i = (case imp_end_lineno i of Some e \<Rightarrow> e | None \<Rightarrow> imp_lineno i)"

definition import_leaf :: "py_import \<Rightarrow> node" where
  "import_leaf i = Node (plain_attrs (imp_unparse i) K_import (Some (imp_lineno i))
                          (Some (import_end i))) (Some [])"

text \<open>The imports node of a batch; the code builds it only for a batch that is not empty.\<close>

definition save_imports :: "py_import list \<Rightarrow> node list \<Rightarrow> node list" where
  "save_imports current_imports out =
     (case current_imports of
        [] \<Rightarrow> out
      | first # rest \<Rightarrow>
          out @ [Node (plain_attrs ''Imports'' K_imports (Some (imp_lineno first))
                          (Some (import_end (last current_imports))))
                     (Some (map import_leaf current_imports))])"

text \<open>The loop over \<^verbatim>\<open>tree.body\<close> with \<^verbatim>\<open>current_imports\<close> and the list
  \<^verbatim>\<open>nodes\<close> (here \<open>out\<close>), and the flush after it.\<close>

fun top_level :: "py_stmt list \<Rightarrow> py_import list \<Rightarrow> node list \<Rightarrow> node list" where
  "top_level [] current_imports out = save_imports current_imports out"
| "top_level (Import i # rest) current_imports out = top_level rest (current_imports @ [i]) out"
| "top_level (s # rest) current_imports out =
     top_level rest [] (save_imports current_imports out @ opt_list (process_node_python s False))"

text \<open>
  \<^verbatim>\<open>extract_nodes_from_python\<close>.  The parser is a parameter; \<open>None\<close> is a
  \<^verbatim>\<open>SyntaxError\<close>.
\<close>

definition extract_nodes_from_python ::
  "(string \<Rightarrow> py_stmt list option) \<Rightarrow> string \<Rightarrow> string list \<Rightarrow> node list" where
  "extract_nodes_from_python ast_parse code_content lines =
     (case ast_parse code_content of None \<Rightarrow> [] | Some body \<Rightarrow> top_level body [] [])"

subsection \<open>Sample inputs\<close>

definition is_import_stmt :: "py_stmt \<Rightarrow> bool" where
  "is_import_stmt s = (case s of Import i \<Rightarrow> True | _ \<Rightarrow> False)"

text \<open>
  The tree of a file with an import in line 1, an empty line, an import in line 3 and an
  assignment in line 4, and a parser that returns it.
\<close>

definition sample_module :: "py_stmt list" where
  "sample_module =
     [Import \<lparr>imp_unparse = ''import os'', imp_lineno = 1, imp_end_lineno = Some 1\<rparr>,
      Import \<lparr>imp_unparse = ''import sys'', imp_lineno = 3, imp_end_lineno = Some 3\<rparr>,
      OtherStmt]"

definition sample_ast_parse :: "string \<Rightarrow> py_stmt list option" where
  "sample_ast_parse code_content = Some sample_module"

section \<open>Spanned-CST extractor (C and C++)\<close>

text \<open>
  A Tree-sitter node as \<^verbatim>\<open>page_index_cpp.py\<close> reads it: its type, the rows of its start
  and end points (counted from zero), the text of the children in the fields
  \<^verbatim>\<open>declarator\<close> and \<^verbatim>\<open>name\<close> where there are such, and its children.
\<close>

datatype ts_node = TsNode (ts_type: string) (start_row: nat) (end_row: nat)
  (declarator: "string option") (name_field: "string option") (children: "ts_node list")

text \<open>\<^verbatim>\<open>process_node\<close> returns a dictionary for a mapped node and a list otherwise.\<close>

datatype cpp_result = One node | Many "node list"

text \<open>
  What a caller adds to its list:
  \<^verbatim>\<open>if r: xs.extend(r if isinstance(r, list) else [r])\<close>.
\<close>

definition as_list :: "cpp_result \<Rightarrow> node list" where
  "as_list r = (case r of One n \<Rightarrow> [n] | Many ns \<Rightarrow> ns)"

text \<open>The mapping of Tree-sitter types, with the title: \<open>None\<close> for a node that is not mapped.\<close>

definition mapped_type :: "ts_node \<Rightarrow> kind option \<Rightarrow> (kind \<times> string option) option" where
  "mapped_type ts_node parent_type =
     (if ts_type ts_node \<in> {''function_definition'', ''template_function''} then
        Some (if parent_type \<in> {Some K_class, Some K_struct} then K_method else K_function,
              map_option (\<lambda>d. d @ ''()'') (declarator ts_node))
      else if ts_type ts_node \<in> {''class_specifier'', ''struct_specifier''} then
        Some (if ts_type ts_node = ''struct_specifier'' then K_struct else K_class,
              Some (case name_field ts_node of Some n \<Rightarrow> n | None \<Rightarrow> ''<anonymous>''))
      else if ts_type ts_node = ''namespace_definition'' then
        Some (K_namespace, name_field ts_node)
      else None)"

text \<open>\<^verbatim>\<open>title if title else mapped_type\<close>\<close>

definition title_or_type :: "string option \<Rightarrow> kind \<Rightarrow> string" where
  "title_or_type t k = (case t of None \<Rightarrow> type_name k | Some s \<Rightarrow> if s = [] then type_name k else s)"

fun process_node_cpp :: "ts_node \<Rightarrow> kind option \<Rightarrow> cpp_result" where
  "process_node_cpp (TsNode ty sr er decl nm cs) parent_type =
     (case mapped_type (TsNode ty sr er decl nm cs) parent_type of
        Some (mapped, t) \<Rightarrow>
          One (Node (plain_attrs (title_or_type t mapped) mapped
                       (Some (int sr + 1)) (Some (int er + 1)))
                 (Some (concat (map (\<lambda>child. as_list (process_node_cpp child (Some mapped))) cs))))
      | None \<Rightarrow>
          Many (concat (map (\<lambda>child. as_list (process_node_cpp child parent_type)) cs)))"

text \<open>
  \<^verbatim>\<open>extract_nodes_from_cpp\<close>.  The parser is a parameter, given the language and the
  source; \<open>None\<close> is any exception while the parser is built or runs.
\<close>

definition extract_nodes_from_cpp ::
  "(string \<Rightarrow> string \<Rightarrow> ts_node option) \<Rightarrow> string \<Rightarrow> string list \<Rightarrow> string \<Rightarrow> node list" where
  "extract_nodes_from_cpp ts_parse code_content lines lang =
     (if lang \<notin> {''c'', ''cpp''} then []
      else case ts_parse lang code_content of
             None \<Rightarrow> []
           | Some root_node \<Rightarrow> as_list (process_node_cpp root_node None))"

text \<open>The nodes that a list of syntax nodes contributes to the node above them.\<close>

definition materialized :: "kind option \<Rightarrow> ts_node list \<Rightarrow> node list" where
  "materialized parent_type cs = concat (map (\<lambda>child. as_list (process_node_cpp child parent_type)) cs)"

text \<open>The node of a function definition that is not inside a class or struct.\<close>

definition function_node :: "ts_node \<Rightarrow> node" where
  "function_node f =
     Node (plain_attrs (title_or_type (map_option (\<lambda>d. d @ ''()'') (declarator f)) K_function)
             K_function (Some (int (start_row f) + 1)) (Some (int (end_row f) + 1)))
       (Some (materialized (Some K_function) (children f)))"

text \<open>
  The tree of \<^verbatim>\<open>namespace ns { void f() { ... } }\<close>: the function definition sits in
  a declaration list, which is not mapped.
\<close>

definition namespace_sample :: ts_node where
  "namespace_sample = TsNode ''namespace_definition'' 0 4 None (Some ''ns'')
      [TsNode ''namespace_identifier'' 0 0 None None [],
       TsNode ''declaration_list'' 0 4 None None
         [TsNode ''function_definition'' 1 3 (Some ''f'') None []]]"

section \<open>Coarse-AST extractor (Java)\<close>

text \<open>
  The tree of \<^verbatim>\<open>javalang\<close> as \<^verbatim>\<open>page_index_java.py\<close> reads it.  A position is the line
  it names, \<open>None\<close> where the node has none.  A statement of a method body is its
  position.  The body of a class or interface is a list of members.  The body of an enum
  is a single node, and a loop over it yields pairs of a path and a node, none of which
  is a declaration: an enum has no member that the extractor processes.
\<close>

record j_decl =
  j_name :: string
  j_position :: "int option"
  j_documentation :: "string option"
  j_annotations :: "string list"

record j_method = j_decl +
  j_parameters :: "(string \<times> string) list"
  j_return_type :: "string option"
  j_body :: "int option list option"

datatype j_node =
    ClassDeclaration j_decl "j_node list"
  | InterfaceDeclaration j_decl "j_node list"
  | EnumDeclaration j_decl
  | MethodDeclaration j_method
  | ConstructorDeclaration j_method
  | OtherMember

record j_unit =
  j_imports :: "int option list"
  j_types :: "j_node list"

text \<open>\<^verbatim>\<open>get_line_range\<close>\<close>

definition get_line_range :: "int option \<Rightarrow> int" where
  "get_line_range position = (case position of Some line \<Rightarrow> line | None \<Rightarrow> 1)"

text \<open>The loop that finds \<^verbatim>\<open>max_child_end\<close>.\<close>

definition max_child_end_step :: "int \<Rightarrow> node \<Rightarrow> int" where
  "max_child_end_step max_child_end child =
     (case end_line (attrs child) of
        Some e \<Rightarrow> if e > max_child_end then e else max_child_end
      | None \<Rightarrow> max_child_end)"

definition type_node :: "kind \<Rightarrow> j_decl \<Rightarrow> node list \<Rightarrow> node" where
  "type_node node_type d child_nodes =
     (let start_line = get_line_range (j_position d);
          max_child_end = foldl max_child_end_step start_line child_nodes
      in Node \<lparr>title = j_name d, ntype = node_type, start_line = Some start_line,
               end_line = Some (max start_line max_child_end), signature = None,
               docstring = j_documentation d, decorators = Some (j_annotations d),
               node_text = None, summary = None, prefix_summary = None, node_id = None,
               path = None\<rparr> (Some child_nodes))"

definition method_signature :: "bool \<Rightarrow> j_method \<Rightarrow> string" where
  "method_signature is_method m =
     (let params = map (\<lambda>(t, n). t @ '' '' @ n) (j_parameters m);
          signature = j_name m @ ''('' @ join '', '' params @ '')''
      in case (if is_method then j_return_type m else None) of
           Some r \<Rightarrow> r @ '' '' @ signature
         | None \<Rightarrow> signature)"

text \<open>The end line of a method or constructor.\<close>

definition method_end_line :: "int \<Rightarrow> int option list option \<Rightarrow> int" where
  "method_end_line start body =
     (case body of
        None \<Rightarrow> start
      | Some [] \<Rightarrow> start
      | Some (s # ss) \<Rightarrow>
          (case last (s # ss) of Some line \<Rightarrow> line + 1 | None \<Rightarrow> start))"

definition method_node :: "bool \<Rightarrow> j_method \<Rightarrow> node" where
  "method_node is_method m =
     (let start_line = get_line_range (j_position m)
      in Node \<lparr>title = j_name m @ ''()'', ntype = K_method, start_line = Some start_line,
               end_line = Some (method_end_line start_line (j_body m)),
               signature = Some (method_signature is_method m),
               docstring = j_documentation m, decorators = Some (j_annotations m),
               node_text = None, summary = None, prefix_summary = None, node_id = None,
               path = None\<rparr> (Some []))"

fun process_node_java :: "j_node \<Rightarrow> node option" where
  "process_node_java (ClassDeclaration d body) =
     Some (type_node K_class d
             (concat (map (\<lambda>child. opt_list (process_node_java child)) body)))"
| "process_node_java (InterfaceDeclaration d body) =
     Some (type_node K_interface d
             (concat (map (\<lambda>child. opt_list (process_node_java child)) body)))"
| "process_node_java (EnumDeclaration d) = Some (type_node K_enum d [])"
| "process_node_java (MethodDeclaration m) = Some (method_node True m)"
| "process_node_java (ConstructorDeclaration m) = Some (method_node False m)"
| "process_node_java OtherMember = None"

definition java_imports_node :: "int option list \<Rightarrow> node list" where
  "java_imports_node imports =
     (case imports of
        [] \<Rightarrow> []
      | first_import # rest \<Rightarrow>
          [Node (plain_attrs ''Imports'' K_imports (Some (get_line_range first_import))
                   (Some (get_line_range (last imports)))) (Some [])])"

text \<open>
  \<^verbatim>\<open>extract_nodes_from_java\<close>.  The parser is a parameter; \<open>None\<close> is one of the
  exceptions that the code catches.
\<close>

definition extract_nodes_from_java ::
  "(string \<Rightarrow> j_unit option) \<Rightarrow> string \<Rightarrow> string list \<Rightarrow> node list" where
  "extract_nodes_from_java javalang_parse code_content lines =
     (case javalang_parse code_content of
        None \<Rightarrow> []
      | Some tree \<Rightarrow>
          java_imports_node (j_imports tree)
          @ concat (map (\<lambda>t. opt_list (process_node_java t)) (j_types tree)))"

subsection \<open>Reading the result\<close>












section \<open>File trees, directories and the pipeline\<close>

subsection \<open>Lines and text\<close>

text \<open>\<^verbatim>\<open>s.split(c)\<close> for a separator of one character.\<close>

fun split_on :: "char \<Rightarrow> string \<Rightarrow> string list" where
  "split_on c [] = [[]]"
| "split_on c (x # xs) =
     (if x = c then [] # split_on c xs
      else (case split_on c xs of [] \<Rightarrow> [[x]] | l # ls \<Rightarrow> (x # l) # ls))"

text \<open>A bound of a slice: a negative one counts from the end, and both are cut to the list.\<close>

definition slice_index :: "int \<Rightarrow> int \<Rightarrow> int" where
  "slice_index n i = (if i < 0 then max (i + n) 0 else min i n)"

text \<open>\<^verbatim>\<open>xs[i:j]\<close>\<close>

definition py_slice :: "'a list \<Rightarrow> int \<Rightarrow> int \<Rightarrow> 'a list" where
  "py_slice xs i j =
     (let n = int (length xs); a = slice_index n i; b = slice_index n j
      in take (nat (b - a)) (drop (nat a) xs))"

text \<open>
  \<^verbatim>\<open>add_text_to_node\<close>.  The Java, Kotlin and C++ modules cut the end line to the number
  of lines first (\<open>clamp\<close>); the Python module does not.  Every node that reaches it has
  both line numbers.
\<close>

definition node_lines_text :: "bool \<Rightarrow> string list \<Rightarrow> attrs \<Rightarrow> attrs" where
  "node_lines_text clamp lines a =
     (case (start_line a, end_line a) of
        (Some s, Some e) \<Rightarrow>
          (let start = s - 1;
               end = (if clamp then min e (int (length lines)) else e)
           in a\<lparr>node_text := Some (join [newline] (py_slice lines start end))\<rparr>)
      | _ \<Rightarrow> a)"

fun add_text_to_node :: "bool \<Rightarrow> string list \<Rightarrow> node \<Rightarrow> node" where
  "add_text_to_node clamp lines (Node a None) = Node (node_lines_text clamp lines a) None"
| "add_text_to_node clamp lines (Node a (Some cs)) =
     Node (node_lines_text clamp lines a) (Some (map (add_text_to_node clamp lines) cs))"

definition extract_node_text_content :: "bool \<Rightarrow> node list \<Rightarrow> string list \<Rightarrow> node list" where
  "extract_node_text_content clamp ns lines = map (add_text_to_node clamp lines) ns"

subsection \<open>Paths\<close>

text \<open>
  Paths are POSIX paths, absolute and normalised, so that \<^verbatim>\<open>os.path.abspath\<close> and
  \<^verbatim>\<open>os.path.normpath\<close> leave them as they are.
\<close>

text \<open>\<^verbatim>\<open>os.path.basename\<close>: what follows the last slash.\<close>

definition basename :: "string \<Rightarrow> string" where
  "basename p = rev (takeWhile (\<lambda>c. c \<noteq> CHR ''/'') (rev p))"

text \<open>\<^verbatim>\<open>os.path.join(d, item)\<close> for an item that does not start with a slash.\<close>

definition path_join :: "string \<Rightarrow> string \<Rightarrow> string" where
  "path_join d item = (if d = [] \<or> endswith d ''/'' then d @ item else d @ ''/'' @ item)"

text \<open>
  \<^verbatim>\<open>os.path.splitext\<close>: the extension starts at the last dot of the base name, unless
  only dots stand before it.
\<close>

definition splitext :: "string \<Rightarrow> string \<times> string" where
  "splitext p =
     (let b = basename p;
          ext = rev (takeWhile (\<lambda>c. c \<noteq> CHR ''.'') (rev b));
          stem = take (length b - length ext - 1) b
      in if CHR ''.'' \<in> set b \<and> (\<exists>c \<in> set stem. c \<noteq> CHR ''.'')
         then (take (length p - length ext - 1) p, CHR ''.'' # ext)
         else (p, []))"

text \<open>\<^verbatim>\<open>str.lower\<close> on the code points below 256.\<close>

definition lower_char :: "char \<Rightarrow> char" where
  "lower_char c =
     (let n = (of_char c :: nat)
      in if (65 \<le> n \<and> n \<le> 90) \<or> (192 \<le> n \<and> n \<le> 222 \<and> n \<noteq> 215) then char_of (n + 32) else c)"

definition supported_extensions :: "string list" where
  "supported_extensions = [''.py'', ''.java'', ''.kt'', ''.c'', ''.h'', ''.cpp'', ''.hpp'', ''.cc'', ''.cxx'']"

text \<open>\<^verbatim>\<open>s.endswith((...))\<close> with the tuple of the nine extensions.\<close>

definition supported_extension :: "string \<Rightarrow> bool" where
  "supported_extension s \<longleftrightarrow> (\<exists>e \<in> set supported_extensions. endswith s e)"

subsection \<open>One file\<close>

text \<open>The three parsers, which the indexer takes from libraries.\<close>

record parsers =
  py_parser :: "string \<Rightarrow> py_stmt list option"
  java_parser :: "string \<Rightarrow> j_unit option"
  cpp_parser :: "string \<Rightarrow> string \<Rightarrow> ts_node option"

text \<open>
  What the four \<^verbatim>\<open>build_..._file_tree\<close> functions share.  The content of the file is
  \<open>None\<close> when reading it fails, and then there is no node.
\<close>

definition file_tree ::
  "(string \<Rightarrow> string list \<Rightarrow> node list) \<Rightarrow> bool \<Rightarrow> string \<Rightarrow> string option \<Rightarrow> node option" where
  "file_tree extract clamp file_path content =
     (case content of
        None \<Rightarrow> None
      | Some code_content \<Rightarrow>
          (let lines = split_on newline code_content;
               ns = extract_node_text_content clamp (extract code_content lines) lines
           in Some (Node \<lparr>title = basename file_path, ntype = K_file, start_line = Some 1,
                           end_line = Some (int (length lines)), signature = None,
                           docstring = None, decorators = None,
                           node_text = Some code_content, summary = None,
                           prefix_summary = None, node_id = None, path = Some file_path\<rparr>
                      (Some ns))))"

definition build_python_file_tree :: "parsers \<Rightarrow> string \<Rightarrow> string option \<Rightarrow> node option" where
  "build_python_file_tree ps file_path content =
     file_tree (extract_nodes_from_python (py_parser ps)) False file_path content"

definition build_java_file_tree :: "parsers \<Rightarrow> string \<Rightarrow> string option \<Rightarrow> node option" where
  "build_java_file_tree ps file_path content =
     file_tree (extract_nodes_from_java (java_parser ps)) True file_path content"

definition build_kotlin_file_tree :: "parsers \<Rightarrow> string \<Rightarrow> string option \<Rightarrow> node option" where
  "build_kotlin_file_tree ps file_path content =
     file_tree extract_nodes_from_kotlin True file_path content"

definition build_cpp_file_tree :: "parsers \<Rightarrow> string \<Rightarrow> string option \<Rightarrow> node option" where
  "build_cpp_file_tree ps file_path content =
     (let ext = map lower_char (snd (splitext file_path));
          lang = (if ext \<in> {''.c'', ''.h''} then ''c'' else ''cpp'')
      in file_tree (\<lambda>code_content lines. extract_nodes_from_cpp (cpp_parser ps) code_content lines lang)
           True file_path content)"

text \<open>\<^verbatim>\<open>build_file_tree\<close>; the model name is passed on and never used.\<close>

definition build_file_tree :: "parsers \<Rightarrow> string \<Rightarrow> string option \<Rightarrow> node option" where
  "build_file_tree ps file_path content =
     (if endswith file_path ''.java'' then build_java_file_tree ps file_path content
      else if endswith file_path ''.kt'' then build_kotlin_file_tree ps file_path content
      else if (\<exists>e \<in> set [''.c'', ''.h'', ''.cpp'', ''.hpp'', ''.cc'', ''.cxx'']. endswith file_path e)
        then build_cpp_file_tree ps file_path content
      else if endswith file_path ''.py'' then build_python_file_tree ps file_path content
      else None)"

subsection \<open>Directories\<close>

text \<open>
  What the traversal finds under a name: a file with its content (\<open>None\<close> if it cannot
  be read or decoded), or a directory with its entries (\<open>None\<close> if listing it is not
  permitted).
\<close>

datatype fs_entry = File "string option" | Dir "(string \<times> fs_entry) list option"

definition skipped_names :: "string list" where
  "skipped_names = [''__pycache__'', ''node_modules'', ''venv'', ''.venv'', ''env'', ''.env'',
     ''.git'', ''target'', ''build'', ''out'']"

definition is_dir :: "fs_entry \<Rightarrow> bool" where
  "is_dir e = (case e of Dir l \<Rightarrow> True | File c \<Rightarrow> False)"

text \<open>The items that the loop over \<^verbatim>\<open>sorted(os.listdir(dir_path))\<close> does not skip.\<close>

definition visible_items :: "(string \<times> fs_entry) list \<Rightarrow> (string \<times> fs_entry) list" where
  "visible_items items =
     filter (\<lambda>(item, e). \<not> (startswith item ''.'' \<or> item \<in> set skipped_names))
       (sort_key fst items)"

text \<open>The lists \<^verbatim>\<open>subdirs\<close> and \<^verbatim>\<open>files\<close>.\<close>

definition subdirs_of :: "(string \<times> fs_entry) list \<Rightarrow> (string \<times> fs_entry) list" where
  "subdirs_of items = filter (\<lambda>(item, e). is_dir e) (visible_items items)"

definition files_of :: "(string \<times> fs_entry) list \<Rightarrow> (string \<times> fs_entry) list" where
  "files_of items =
     filter (\<lambda>(item, e). \<not> is_dir e \<and> supported_extension item) (visible_items items)"

fun has_code_content :: "node \<Rightarrow> bool" where
  "has_code_content (Node a None) = (ntype a = K_file)"
| "has_code_content (Node a (Some cs)) = (ntype a = K_file \<or> (\<exists>child \<in> set cs. has_code_content child))"

definition directory_attrs :: "string \<Rightarrow> attrs" where
  "directory_attrs dir_path =
     \<lparr>title = basename dir_path, ntype = K_directory, start_line = None, end_line = None,
      signature = None, docstring = None, decorators = None, node_text = None,
      summary = None, prefix_summary = None, node_id = None, path = Some dir_path\<rparr>"

definition file_content :: "fs_entry \<Rightarrow> string option" where
  "file_content e = (case e of File c \<Rightarrow> c | Dir l \<Rightarrow> None)"

lemma subdirs_of_smaller:
  assumes "(item, e) \<in> set (subdirs_of items)"
  shows "size e < Suc (size_option (size_list (size_prod (\<lambda>x. 0) size)) (Some items))"
proof -
  from assms have "(item, e) \<in> set items"
    by (auto simp: subdirs_of_def visible_items_def)
  then have "size_prod (\<lambda>x. 0) size (item, e) \<le> size_list (size_prod (\<lambda>x. 0) size) items"
    by (simp add: size_list_estimation')
  then show ?thesis by simp
qed

text \<open>
  \<^verbatim>\<open>build_directory_tree\<close>, given what is found at \<open>dir_path\<close>.  It is only ever
  called on a directory.
\<close>

function build_directory_tree :: "parsers \<Rightarrow> string \<Rightarrow> fs_entry \<Rightarrow> node" where
  "build_directory_tree ps dir_path (File c) = Node (directory_attrs dir_path) (Some [])"
| "build_directory_tree ps dir_path (Dir None) = Node (directory_attrs dir_path) (Some [])"
| "build_directory_tree ps dir_path (Dir (Some items)) =
     Node (directory_attrs dir_path)
       (Some (filter has_code_content
                (map (\<lambda>(item, e). build_directory_tree ps (path_join dir_path item) e)
                   (subdirs_of items))
              @ concat (map (\<lambda>(item, e).
                   opt_list (build_file_tree ps (path_join dir_path item) (file_content e)))
                   (files_of items))))"
  by pat_completeness auto
termination
proof (relation "measure (\<lambda>(ps, dir_path, e). size e)")
  show "wf (measure (\<lambda>(ps, dir_path, e). size e))" by simp
next
  fix ps :: parsers and dir_path :: string and items :: "(string \<times> fs_entry) list"
    and x :: "string \<times> fs_entry" and xa :: string and y :: fs_entry
  assume "x \<in> set (subdirs_of items)" and "(xa, y) = x"
  then have "(xa, y) \<in> set (subdirs_of items)" by simp
  then have "size y < Suc (size_option (size_list (size_prod (\<lambda>x. 0) size)) (Some items))"
    by (rule subdirs_of_smaller)
  then show "((ps, path_join dir_path xa, y), (ps, dir_path, Dir (Some items)))
      \<in> measure (\<lambda>(ps, dir_path, e). size e)"
    by simp
qed

subsection \<open>The entry point\<close>

fun clean_empty_nodes :: "node \<Rightarrow> node" where
  "clean_empty_nodes (Node a None) = Node a None"
| "clean_empty_nodes (Node a (Some cs)) =
     (let cs' = map clean_empty_nodes cs in Node a (if cs' = [] then None else Some cs'))"

fun remove_text_from_structure :: "node \<Rightarrow> node" where
  "remove_text_from_structure (Node a None) = Node (a\<lparr>node_text := None\<rparr>) None"
| "remove_text_from_structure (Node a (Some cs)) =
     Node (a\<lparr>node_text := None\<rparr>) (Some (map remove_text_from_structure cs))"

fun remove_path_from_structure :: "node \<Rightarrow> node" where
  "remove_path_from_structure (Node a None) = Node (a\<lparr>path := None\<rparr>) None"
| "remove_path_from_structure (Node a (Some cs)) =
     Node (a\<lparr>path := None\<rparr>) (Some (map remove_path_from_structure cs))"

text \<open>
  The functions of \<^verbatim>\<open>utils.py\<close> that \<^verbatim>\<open>code_to_tree\<close> calls, as parameters:
  \<^verbatim>\<open>write_node_id\<close> and \<^verbatim>\<open>format_structure\<close> by what they make of the tree, and the
  description of the document as one function of the tree and the model name.
\<close>

record utils =
  u_count_tokens :: "string \<Rightarrow> string \<Rightarrow> int"
  u_ChatGPT_API_async :: "string \<Rightarrow> string \<Rightarrow> error + string"
  u_write_node_id :: "node \<Rightarrow> node"
  u_format_structure :: "node \<Rightarrow> node"
  u_generate_doc_description :: "node \<Rightarrow> string \<Rightarrow> string"

record options =
  o_if_thinning :: bool
  o_min_token_threshold :: int
  o_if_add_node_summary :: string
  o_summary_token_threshold :: int
  o_model :: string
  o_if_add_doc_description :: string
  o_if_add_node_text :: string
  o_if_add_node_id :: string

record tree_result =
  doc_name :: string
  doc_description :: "string option"
  doc_structure :: "node list"

text \<open>\<^verbatim>\<open>code_to_tree\<close> after the tree is built.\<close>

definition finish_tree :: "utils \<Rightarrow> options \<Rightarrow> string \<Rightarrow> node \<Rightarrow> error + tree_result" where
  "finish_tree us opts name s0 =
     (let s1 = (if o_if_thinning opts
                then tree_thinning_for_code (u_count_tokens us) s0 (o_min_token_threshold opts) (o_model opts)
                else s0);
          s2 = clean_empty_nodes s1;
          s3 = (if o_if_add_node_id opts = ''yes'' then u_write_node_id us s2 else s2)
      in case (if o_if_add_node_summary opts = ''yes''
               then snd (generate_summaries_for_code_structure (u_count_tokens us)
                           (u_ChatGPT_API_async us) s3 (o_summary_token_threshold opts) (o_model opts))
               else Inr s3) of
           Inl e \<Rightarrow> Inl e
         | Inr s4 \<Rightarrow>
             (let s5 = u_format_structure us (preserve_imports_text s4);
                  s6 = (if o_if_add_node_text opts = ''no'' then remove_text_from_structure s5 else s5);
                  s7 = remove_path_from_structure s6
              in Inr \<lparr>doc_name = name,
                      doc_description =
                        (if o_if_add_doc_description opts = ''yes''
                         then Some (u_generate_doc_description us s7 (o_model opts)) else None),
                      doc_structure = [s7]\<rparr>))"

text \<open>
  \<^verbatim>\<open>code_to_tree\<close> for the path \<open>target\<close>, given what is found there: \<open>None\<close> if there is neither a
  file nor a directory.
\<close>

definition code_to_tree ::
  "parsers \<Rightarrow> utils \<Rightarrow> string \<Rightarrow> fs_entry option \<Rightarrow> options \<Rightarrow> error + tree_result" where
  "code_to_tree ps us target found opts =
     (case found of
        Some (File content) \<Rightarrow>
          (if \<not> supported_extension target then Inl (ValueError ''File extension not supported'')
           else (case build_file_tree ps target content of
                   None \<Rightarrow> Inl (ValueError (''Failed to process path: '' @ target))
                 | Some s \<Rightarrow> finish_tree us opts (fst (splitext (basename target))) s))
      | Some (Dir l) \<Rightarrow>
          finish_tree us opts (basename target) (build_directory_tree ps target (Dir l))
      | None \<Rightarrow> Inl (ValueError (''Path does not exist: '' @ target)))"

subsection \<open>Sample inputs\<close>

text \<open>
  Parsers that fail on every input, the collaborators at their simplest, and the default
  options of \<^verbatim>\<open>code_to_tree\<close>.
\<close>

definition no_parsers :: parsers where
  "no_parsers = \<lparr>py_parser = (\<lambda>c. None), java_parser = (\<lambda>c. None), cpp_parser = (\<lambda>l c. None)\<rparr>"

definition plain_utils :: utils where
  "plain_utils = \<lparr>u_count_tokens = length_tokens, u_ChatGPT_API_async = reply_fixed,
     u_write_node_id = (\<lambda>n. n), u_format_structure = (\<lambda>n. n),
     u_generate_doc_description = (\<lambda>n m. [])\<rparr>"

definition default_options :: options where
  "default_options = \<lparr>o_if_thinning = False, o_min_token_threshold = 5000,
     o_if_add_node_summary = ''no'', o_summary_token_threshold = 200,
     o_model = ''gpt-4o-2024-11-20'', o_if_add_doc_description = ''no'',
     o_if_add_node_text = ''no'', o_if_add_node_id = ''yes''\<rparr>"

text \<open>A directory with a Kotlin file and a text file.\<close>

definition kotlin_entry :: "string \<times> fs_entry" where
  "kotlin_entry = (''b.kt'', File (Some ''class B''))"

section \<open>Line ranges\<close>



text \<open>The range of the node \<open>c\<close> lies within the range that \<open>a\<close> gives.\<close>

definition within :: "attrs \<Rightarrow> node \<Rightarrow> bool" where
  "within a c = (case (start_line a, end_line a, start_line (attrs c), end_line (attrs c)) of
                   (Some ps, Some pe, Some cs, Some ce) \<Rightarrow> ps \<le> cs \<and> ce \<le> pe | _ \<Rightarrow> False)"

text \<open>The node \<open>c\<close> does not start before the range of \<open>a\<close> starts.\<close>

definition starts_in :: "attrs \<Rightarrow> node \<Rightarrow> bool" where
  "starts_in a c = (case (start_line a, start_line (attrs c)) of
                      (Some ps, Some cs) \<Rightarrow> ps \<le> cs | _ \<Rightarrow> False)"






text \<open>The pending run of imports, by line \<open>L\<close>.\<close>

definition imports_ok :: "int \<Rightarrow> scan_state \<Rightarrow> bool" where
  "imports_ok L st =
     (case import_start_line st of
        None \<Rightarrow> True
      | Some a \<Rightarrow> (case import_end_line st of Some b \<Rightarrow> a \<le> b \<and> b \<le> L | None \<Rightarrow> False))"




subsection \<open>Positions of a Python tree\<close>








subsection \<open>Spans of a syntax tree\<close>



subsection \<open>Positions of a Java tree\<close>




subsection \<open>Sample inputs\<close>






section \<open>Properties of thinning\<close>

lemma thin_node_children:
  assumes "cs \<noteq> []"
  shows "thin_node ct m thr (Node a (Some cs)) =
     (if mergeable ct m thr a (map (thin_node ct m thr) cs)
      then Node (a\<lparr>node_text := Some (foldl merge_child (get_or (node_text a) [])
                   (map (thin_node ct m thr) cs))\<rparr>) None
      else Node a (Some (map (thin_node ct m thr) cs)))"
proof -
  from assms obtain c cs' where "cs = c # cs'" by (cases cs) auto
  then show ?thesis by (simp only: thin_node.simps Let_def mergeable_def)
qed

text \<open>
  A merged node has lost its \<^verbatim>\<open>nodes\<close> key and is returned untouched by a second pass.
  A node that kept its children kept them because the total over the thinned children
  was not below the threshold (or its kind is no merge target); the second pass thins
  the children again, which changes nothing, so it meets the same total.
\<close>

lemma thin_node_idem:
  "thin_node ct m thr (thin_node ct m thr n) = thin_node ct m thr n"
proof (induction ct m thr n rule: thin_node.induct)
  case (3 ct m thr a c cs)
  let ?T = "thin_node ct m thr"
  let ?ns = "map ?T (c # cs)"
  have again: "map ?T ?ns = ?ns"
    using 3 by simp
  have ne: "?ns \<noteq> []" by simp
  show ?case
  proof (cases "mergeable ct m thr a ?ns")
    case True
    then have "?T (Node a (Some (c # cs))) =
        Node (a\<lparr>node_text := Some (foldl merge_child (get_or (node_text a) []) ?ns)\<rparr>) None"
      by (subst thin_node_children) simp_all
    then show ?thesis by (simp only: thin_node.simps)
  next
    case False
    then have first: "?T (Node a (Some (c # cs))) = Node a (Some ?ns)"
      by (subst thin_node_children) simp_all
    have "?T (Node a (Some ?ns)) = Node a (Some ?ns)"
      unfolding thin_node_children [OF ne] again using False by simp
    with first show ?thesis by (simp only:)
  qed
qed simp_all

text \<open>
  Claim C3.  Thinning is idempotent: for every tree, every token counter, every model
  name and every threshold, applying \<^verbatim>\<open>tree_thinning_for_code\<close> to its own result with
  the same threshold returns that result unchanged, that is the same nodes, the same
  children and the same fields.
\<close>

theorem tree_thinning_idempotent:
  "tree_thinning_for_code count_tokens
     (tree_thinning_for_code count_tokens structure min_token_threshold model)
     min_token_threshold model
   = tree_thinning_for_code count_tokens structure min_token_threshold model"
  unfolding tree_thinning_for_code_def by (rule thin_node_idem)

section \<open>Properties of the summary stage\<close>

lemma structure_to_list_append:
  "structure_to_list (xs @ ys) = structure_to_list xs @ structure_to_list ys"
  by (induction xs) simp_all

lemma structure_to_list_concat:
  "structure_to_list (concat xss) = concat (map structure_to_list xss)"
  by (induction xss) (simp_all add: structure_to_list_append)

lemma preserve_imports_text_eq:
  "preserve_imports_text (Node a ns) =
     Node (keep_imports a) (map_option (map preserve_imports_text) ns)"
  by (cases ns) simp_all

lemma annotate_eq:
  "annotate f (Node a ns) =
     Node (if summarised_kind (ntype a) then assign_one a ns (f (Node a ns)) else a)
       (map_option (map (annotate f)) ns)"
  by (cases ns) simp_all

lemma truthy_nodes_map [simp]: "truthy_nodes (Some (map g cs)) = truthy_nodes (Some cs)"
  by (cases cs) (simp_all add: truthy_nodes_def)

lemma imports_not_summarised [simp]: "\<not> summarised_kind K_imports"
  by (simp add: summarised_kind_def)

text \<open>Handing each summarised node its own summary is a map over the tree.\<close>

lemma assign_summaries_annotate:
  "assign_summaries ns (map f (code_nodes_of ns) @ rest) = (map (annotate f) ns, rest)"
  "assign_summaries_node n (map f (code_nodes_of [n]) @ rest) = (annotate f n, rest)"
proof (induction ns and n arbitrary: rest and rest
    rule: structure_to_list_structure_to_list_node.induct)
  case 1
  show ?case by (simp add: code_nodes_of_def)
next
  case (2 n ns)
  have split: "map f (code_nodes_of (n # ns)) @ rest
      = map f (code_nodes_of [n]) @ (map f (code_nodes_of ns) @ rest)"
    by (simp add: code_nodes_of_def)
  show ?case unfolding split by (simp add: 2)
next
  case (3 a)
  show ?case by (simp add: code_nodes_of_def)
next
  case (4 a cs)
  show ?case using 4 by (simp add: code_nodes_of_def)
qed

lemma gather_map_Inr:
  "gather (map g xs) = Inr vs \<Longrightarrow> vs = map (\<lambda>x. projr (g x)) xs"
proof (induction xs arbitrary: vs)
  case Nil
  then show ?case by simp
next
  case (Cons x xs)
  then show ?case
    by (cases "g x"; cases "gather (map g xs)") auto
qed

lemma gather_fails:
  "x \<in> set xs \<Longrightarrow> isl x \<Longrightarrow> isl (gather xs)"
proof (induction xs)
  case Nil
  then show ?case by simp
next
  case (Cons y ys)
  then show ?case
    by (cases y; cases "gather ys") auto
qed

lemma head_as_designed:
  assumes "summary a = None" "prefix_summary a = None" "truthy_nodes ns' = truthy_nodes ns"
  shows "summaries_as_designed
           (Node (keep_imports (if summarised_kind (ntype a) then assign_one a ns s else a)) ns')"
  using assms
  by (auto simp add: summaries_as_designed_def exactly_one_by_children_def keep_imports_def
        assign_one_def)

lemma annotated_as_designed:
  "list_all no_summaries (structure_to_list ns) \<Longrightarrow>
     list_all summaries_as_designed
       (structure_to_list (map (\<lambda>n. preserve_imports_text (annotate f n)) ns))"
  "list_all no_summaries (structure_to_list_node n) \<Longrightarrow>
     list_all summaries_as_designed
       (structure_to_list_node (preserve_imports_text (annotate f n)))"
proof (induction ns and n rule: structure_to_list_structure_to_list_node.induct)
  case 1
  show ?case by simp
next
  case (2 n ns)
  then show ?case by simp
next
  case (3 a)
  then have "summary a = None" "prefix_summary a = None"
    by (simp_all add: no_summaries_def)
  then show ?case
    unfolding annotate_eq preserve_imports_text_eq
    by (simp add: head_as_designed)
next
  case (4 a cs)
  then have a: "no_summaries (Node a (Some cs))"
    and cs: "list_all no_summaries (structure_to_list cs)"
    by simp_all
  from a have a: "summary a = None" "prefix_summary a = None"
    by (simp_all add: no_summaries_def)
  have "summaries_as_designed
          (Node (keep_imports (if summarised_kind (ntype a)
                   then assign_one a (Some cs) (f (Node a (Some cs))) else a))
             (Some (map (\<lambda>n. preserve_imports_text (annotate f n)) cs)))"
    using a by (intro head_as_designed) simp_all
  moreover have "list_all summaries_as_designed
       (structure_to_list (map (\<lambda>n. preserve_imports_text (annotate f n)) cs))"
    using 4 cs by simp
  ultimately show ?case
    unfolding annotate_eq preserve_imports_text_eq by (simp add: o_def)
qed

lemma generate_summaries_returns:
  assumes "generate_summaries_for_code_structure ct gpt structure thr model = (t, Inr r)"
  shows "\<exists>f. t = annotate f structure \<and> r = t"
proof -
  let ?g = "\<lambda>node. get_code_node_summary ct gpt node thr model"
  from assms obtain summaries
    where g: "gather (map ?g (code_nodes_of [structure])) = Inr summaries"
      and t: "t = fst (assign_summaries_node structure summaries)" and r: "r = t"
    by (auto simp: generate_summaries_for_code_structure_def Let_def code_nodes_of_def
          split: sum.splits)
  from gather_map_Inr [OF g]
  have "summaries = map (\<lambda>x. projr (?g x)) (code_nodes_of [structure]) @ []" by simp
  then have "assign_summaries_node structure summaries
      = (annotate (\<lambda>x. projr (?g x)) structure, [])"
    by (simp only: assign_summaries_annotate)
  with t r show ?thesis by auto
qed

lemma sample_file_no_summaries: "list_all no_summaries (structure_to_list [sample_file])"
  by (simp add: sample_file_def mk_attrs_def no_summaries_def)

lemma sample_file_summarised:
  "generate_summaries_for_code_structure length_tokens reply_fixed sample_file 200 ''gpt''
   = (Node ((mk_attrs ''a.py'' K_file 1 1 ''import os'')\<lparr>prefix_summary := Some ''import os''\<rparr>)
        (Some [Node (mk_attrs ''Imports'' K_imports 1 1 ''import os'')
          (Some [Node (mk_attrs ''import os'' K_import 1 1 ''import os'') (Some [])])]),
      Inr (Node ((mk_attrs ''a.py'' K_file 1 1 ''import os'')\<lparr>prefix_summary := Some ''import os''\<rparr>)
        (Some [Node (mk_attrs ''Imports'' K_imports 1 1 ''import os'')
          (Some [Node (mk_attrs ''import os'' K_import 1 1 ''import os'') (Some [])])])))"
  by (simp add: sample_file_def mk_attrs_def generate_summaries_for_code_structure_def
        summarised_kind_def get_code_node_summary_def get_or_def Let_def assign_one_def
        truthy_nodes_def length_tokens_def)

text \<open>
  Claim C1, as the code has it.  Let no node of the tree carry \<^verbatim>\<open>summary\<close> or
  \<^verbatim>\<open>prefix_summary\<close> before the stage (no extractor sets either), and let every
  request succeed.  After \<^verbatim>\<open>generate_summaries_for_code_structure\<close> and
  \<^verbatim>\<open>preserve_imports_text\<close>, every node of kind class, function, method, interface, enum
  or file has exactly one of the two keys: \<^verbatim>\<open>prefix_summary\<close> if its list of children is
  not empty, \<^verbatim>\<open>summary\<close> otherwise.  Every imports node has \<^verbatim>\<open>summary\<close> (its stripped
  text) and no \<^verbatim>\<open>prefix_summary\<close>, with or without children.  A node of any other kind has
  neither key.
\<close>

theorem summaries_after_stage:
  assumes "list_all no_summaries (structure_to_list [structure])"
    and "generate_summaries_for_code_structure count_tokens ChatGPT_API_async structure
           summary_token_threshold model = (t, Inr r)"
  shows "list_all summaries_as_designed (structure_to_list [preserve_imports_text r])"
proof -
  from generate_summaries_returns [OF assms(2)]
  obtain f where "t = annotate f structure" "r = t" by blast
  moreover from assms(1) have "list_all no_summaries (structure_to_list_node structure)"
    by simp
  ultimately show ?thesis
    using annotated_as_designed(2) [where n = "structure" and f = f] by simp
qed

theorem summaries_after_stage_witness:
  "list_all no_summaries (structure_to_list [sample_file]) \<and>
   list_all summaries_as_designed (structure_to_list [preserve_imports_text
     (fst (generate_summaries_for_code_structure length_tokens reply_fixed sample_file 200 ''gpt''))])"
proof -
  let ?G = "generate_summaries_for_code_structure length_tokens reply_fixed sample_file 200 ''gpt''"
  have ret: "?G = (fst ?G, Inr (fst ?G))"
    by (simp add: sample_file_summarised)
  have "list_all summaries_as_designed (structure_to_list [preserve_imports_text (fst ?G)])"
    using sample_file_no_summaries ret by (rule summaries_after_stage)
  with sample_file_no_summaries show ?thesis by (rule conjI)
qed

text \<open>
  The claim as the specification words it fails on the tree of a Python file with one
  import statement: the imports node has a child and receives \<^verbatim>\<open>summary\<close>, and the
  import node below it receives neither key.
\<close>

theorem summaries_by_children_counterexample:
  "list_all no_summaries (structure_to_list [sample_file]) \<and>
   snd (generate_summaries_for_code_structure length_tokens reply_fixed sample_file 200 ''gpt'')
     = Inr (fst (generate_summaries_for_code_structure length_tokens reply_fixed sample_file 200 ''gpt'')) \<and>
   \<not> list_all exactly_one_by_children (structure_to_list [preserve_imports_text
     (fst (generate_summaries_for_code_structure length_tokens reply_fixed sample_file 200 ''gpt''))])"
proof -
  let ?G = "generate_summaries_for_code_structure length_tokens reply_fixed sample_file 200 ''gpt''"
  have "snd ?G = Inr (fst ?G)"
    by (simp add: sample_file_summarised)
  moreover have "\<not> list_all exactly_one_by_children
                    (structure_to_list [preserve_imports_text (fst ?G)])"
    unfolding sample_file_summarised
    by (simp add: exactly_one_by_children_def mk_attrs_def truthy_nodes_def keep_imports_def)
  ultimately show ?thesis using sample_file_no_summaries by blast
qed

text \<open>
  Claim C9.  If the request of any one node of a summarised kind fails, the call of
  \<^verbatim>\<open>generate_summaries_for_code_structure\<close> fails as a whole, and the tree is left
  exactly as the earlier stages produced it: no node has been assigned \<^verbatim>\<open>summary\<close> or
  \<^verbatim>\<open>prefix_summary\<close>.
\<close>

theorem summarization_fail_fast:
  assumes "n \<in> set (structure_to_list [structure])"
    and "summarised_kind (ntype (attrs n))"
    and "get_code_node_summary count_tokens ChatGPT_API_async n summary_token_threshold model
           = Inl e"
  shows "\<exists>e'. generate_summaries_for_code_structure count_tokens ChatGPT_API_async structure
              summary_token_threshold model = (structure, Inl e')"
proof -
  let ?g = "\<lambda>node. get_code_node_summary count_tokens ChatGPT_API_async node
                summary_token_threshold model"
  let ?code_nodes = "filter (\<lambda>n. summarised_kind (ntype (attrs n)))
                       (structure_to_list [structure])"
  from assms(1,2) have "n \<in> set ?code_nodes" by simp
  then have "?g n \<in> set (map ?g ?code_nodes)" by (simp only: set_map) (rule imageI)
  moreover from assms(3) have "isl (?g n)" by simp
  ultimately have "isl (gather (map ?g ?code_nodes))" by (rule gather_fails)
  then obtain e' where "gather (map ?g ?code_nodes) = Inl e'" by (auto simp: isl_def)
  then show ?thesis
    by (simp add: generate_summaries_for_code_structure_def Let_def)
qed

theorem summarization_fail_fast_witness:
  "\<exists>e'. generate_summaries_for_code_structure length_tokens reply_down sample_file 5 ''gpt''
           = (sample_file, Inl e')"
proof (rule summarization_fail_fast [where n = sample_file])
  show "sample_file \<in> set (structure_to_list [sample_file])"
    by (simp add: sample_file_def)
  show "summarised_kind (ntype (attrs sample_file))"
    by (simp add: sample_file_def mk_attrs_def summarised_kind_def)
  show "get_code_node_summary length_tokens reply_down sample_file 5 ''gpt''
          = Inl (RequestError ''connection refused'')"
    by (simp add: get_code_node_summary_def sample_file_def mk_attrs_def get_or_def
          length_tokens_def reply_down_def Let_def)
qed

section \<open>Properties of the heuristic scanner\<close>

subsection \<open>Lines and patterns\<close>


lemma skip_ws_head: "skip_ws s = c # cs \<Longrightarrow> \<not> is_space c"
  unfolding skip_ws_def by (metis hd_dropWhile list.sel(1) list.distinct(1))


lemma strip_empty_skip_ws:
  assumes "strip line = []"
  shows "skip_ws line = []"
proof (cases "skip_ws line")
  case Nil
  then show ?thesis .
next
  case (Cons c cs)
  then have c: "\<not> is_space c" by (rule skip_ws_head)
  from assms have "dropWhile is_space (rev (skip_ws line)) = []"
    by (simp add: strip_def skip_ws_def)
  then have "\<forall>x \<in> set (skip_ws line). is_space x"
    by (simp add: dropWhile_eq_Nil_conv)
  with Cons c show ?thesis by simp
qed




lemma blank_line_no_definition:
  assumes "strip line = []"
  shows "class_pattern_search line = None \<and> fun_pattern_search line = None"
proof -
  from assms have s0: "skip_ws line = []" by (rule strip_empty_skip_ws)
  have ws: "skip_ws [] = []" by (simp add: skip_ws_def)
  have "skip_modifiers [] = []" by (simp add: fun_modifiers_def)
  then show ?thesis
    unfolding class_pattern_search_def fun_pattern_search_def Let_def s0
    by (simp add: ws kind_keyword_def)
qed



lemma flush_imports_none: "import_start_line st = None \<Longrightarrow> flush_imports st = st"
  by (simp add: flush_imports_def)

lemma new_definition_kind:
  assumes "new_definition mc mf line ln pt = Some nn"
  shows "ntype (attrs nn) \<noteq> K_imports \<and> nodes nn = Some []"
  using assms
  by (auto simp: new_definition_def plain_attrs_def class_node_type_def
        split: option.splits if_splits)

text \<open>A line of code met with no scope open.\<close>

lemma scan_code_line_no_scope:
  assumes "stack st = []"
  shows "roots (scan_code_line st ln line) =
           roots st @ (case new_definition (class_pattern_search line) (fun_pattern_search line)
                              line ln None of None \<Rightarrow> [] | Some nn \<Rightarrow> [nn])"
    and "import_start_line (scan_code_line st ln line) = import_start_line st"
    and "import_end_line (scan_code_line st ln line) = import_end_line st"
  using assms
  by (simp_all add: scan_code_line_def Let_def top_type_def attach_def split: option.splits)






subsection \<open>The class-like and the function pattern on one line\<close>

lemma kind_keyword_starts:
  assumes "kind_keyword t \<noteq> None"
  shows "prefix ''class'' t \<or> prefix ''interface'' t \<or> prefix ''object'' t \<or> prefix ''enum'' t"
  using assms by (auto simp: kind_keyword_def split: option.splits if_splits)

lemma kind_keyword_no_fun:
  assumes "kind_keyword t \<noteq> None"
  shows "first_word fun_modifiers t = None" and "\<not> prefix ''fun'' t"
proof -
  from kind_keyword_starts [OF assms]
  consider r where "t = ''class'' @ r" | r where "t = ''interface'' @ r"
    | r where "t = ''object'' @ r" | r where "t = ''enum'' @ r"
    by (auto simp: prefix_def)
  then have "first_word fun_modifiers t = None \<and> \<not> prefix ''fun'' t"
    by cases (simp_all add: fun_modifiers_def)
  then show "first_word fun_modifiers t = None" and "\<not> prefix ''fun'' t" by simp_all
qed

lemma skip_modifiers_none: "first_word fun_modifiers s = None \<Longrightarrow> skip_modifiers s = s"
  by simp

lemma skip_modifiers_some: "first_word fun_modifiers s = Some (w, r) \<Longrightarrow> skip_modifiers s = skip_modifiers r"
  by simp

lemma first_word_None_iff: "first_word ws s = None \<longleftrightarrow> (\<forall>w \<in> set ws. \<not> prefix w s)"
  by (induction ws) simp_all

lemma first_word_space:
  assumes "s = [] \<or> is_space (hd s)"
  shows "first_word fun_modifiers s = None"
proof (cases s)
  case Nil
  then show ?thesis by (simp add: fun_modifiers_def)
next
  case (Cons c cs)
  with assms have "is_space c" by simp
  then have "c \<noteq> CHR ''p''" "c \<noteq> CHR ''i''" "c \<noteq> CHR ''o''" "c \<noteq> CHR ''s''" "c \<noteq> CHR ''a''"
    by (auto simp: is_space_def)
  then have "\<forall>w \<in> set fun_modifiers. \<not> prefix w (c # cs)"
    by (auto simp: fun_modifiers_def)
  with Cons show ?thesis by (simp only: first_word_None_iff)
qed

lemma skip_ws_cases: "skip_ws s = s \<or> (s \<noteq> [] \<and> is_space (hd s))"
  by (cases s) (simp_all add: skip_ws_def)

lemma skip_ws_idem: "skip_ws (skip_ws s) = skip_ws s"
  unfolding skip_ws_def by (simp add: dropWhile_idem)

text \<open>Where the class-like pattern reads its keyword, the function pattern cannot read \<^verbatim>\<open>fun\<close>.\<close>

lemma keyword_excludes_fun:
  assumes "kind_keyword (skip_ws s) \<noteq> None"
  shows "\<not> prefix ''fun'' (skip_ws (skip_modifiers s))"
proof -
  have "first_word fun_modifiers s = None"
    using skip_ws_cases [of s]
  proof
    assume "skip_ws s = s"
    with assms show ?thesis by (simp add: kind_keyword_no_fun(1))
  next
    assume "s \<noteq> [] \<and> is_space (hd s)"
    then show ?thesis by (simp add: first_word_space)
  qed
  then have "skip_modifiers s = s" by (rule skip_modifiers_none)
  with kind_keyword_no_fun(2) [OF assms] show ?thesis by simp
qed


lemma first_word_Some:
  "first_word ws s = Some (w, r) \<Longrightarrow> w \<in> set ws \<and> s = w @ r"
  by (induction ws) (auto simp: prefix_def split: if_splits)

text \<open>The same from the place of the optional modifier on.\<close>

lemma modifier_excludes_fun:
  assumes "kind_keyword (skip_ws (case first_word [''open'', ''data'', ''sealed'', ''annotation'', ''inner'']
                                         (skip_ws s) of Some (w, r) \<Rightarrow> r | None \<Rightarrow> skip_ws s)) \<noteq> None"
  shows "\<not> prefix ''fun'' (skip_ws (skip_modifiers s))"
proof (cases "first_word [''open'', ''data'', ''sealed'', ''annotation'', ''inner''] (skip_ws s)")
  case None
  from assms have "kind_keyword (skip_ws s) \<noteq> None"
    unfolding None option.case skip_ws_idem .
  then show ?thesis by (rule keyword_excludes_fun)
next
  case (Some m)
  obtain w r where m: "m = (w, r)" by (cases m)
  note fw = Some [unfolded m]
  from first_word_Some [OF fw]
  have wr: "w \<in> set [''open'', ''data'', ''sealed'', ''annotation'', ''inner'']"
    "skip_ws s = w @ r" by blast+
  from assms have kk: "kind_keyword (skip_ws r) \<noteq> None"
    unfolding fw option.case prod.case .
  from skip_ws_cases [of s] show ?thesis
  proof
    assume "s \<noteq> [] \<and> is_space (hd s)"
    then have "first_word fun_modifiers s = None" by (simp add: first_word_space)
    then have "skip_modifiers s = s" by (rule skip_modifiers_none)
    moreover from wr have "\<not> prefix ''fun'' (skip_ws s)" by auto
    ultimately show ?thesis by simp
  next
    assume same: "skip_ws s = s"
    show ?thesis
    proof (cases "w = ''open''")
      case True
      with wr same have "s = ''open'' @ r" by simp
      then have "first_word fun_modifiers s = Some (''open'', r)"
        by (simp add: fun_modifiers_def)
      then have "skip_modifiers s = skip_modifiers r" by (rule skip_modifiers_some)
      with keyword_excludes_fun [OF kk] show ?thesis by simp
    next
      case False
      with wr same consider "s = ''data'' @ r" | "s = ''sealed'' @ r" | "s = ''annotation'' @ r"
        | "s = ''inner'' @ r" by auto
      then have "first_word fun_modifiers s = None \<and> \<not> prefix ''fun'' s"
        by cases (simp_all add: fun_modifiers_def)
      then have "skip_modifiers s = s" "\<not> prefix ''fun'' s" by simp_all
      with same show ?thesis by simp
    qed
  qed
qed

text \<open>
  No line matches both patterns.  Each is anchored at the start of the line; the words
  that the function pattern may skip before \<^verbatim>\<open>fun\<close> are the visibility words and
  \<^verbatim>\<open>open\<close> of the class-like pattern, and behind them the class-like pattern reads its
  keyword where the function pattern has to read \<^verbatim>\<open>fun\<close>.  So the branch for a function
  match is only ever reached on lines without a class match, and a function declared
  behind a class header is not a function match in the first place.
\<close>

lemma class_match_no_fun_match:
  assumes "class_pattern_search line \<noteq> None"
  shows "fun_pattern_search line = None"
proof -
  let ?V = "[''private'', ''public'', ''protected'', ''internal'']"
  let ?M = "[''open'', ''data'', ''sealed'', ''annotation'', ''inner'']"
  define s1 where "s1 = (case first_word ?V (skip_ws line) of Some (w, r) \<Rightarrow> r | None \<Rightarrow> skip_ws line)"
  have kk: "kind_keyword (skip_ws (case first_word ?M (skip_ws s1) of
      Some (w, r) \<Rightarrow> r | None \<Rightarrow> skip_ws s1)) \<noteq> None"
  proof
    assume none: "kind_keyword (skip_ws (case first_word ?M (skip_ws s1) of
      Some (w, r) \<Rightarrow> r | None \<Rightarrow> skip_ws s1)) = None"
    have "class_pattern_search line = None"
      unfolding class_pattern_search_def Let_def s1_def [symmetric] none option.case ..
    with assms show False ..
  qed
  then have nf: "\<not> prefix ''fun'' (skip_ws (skip_modifiers s1))" by (rule modifier_excludes_fun)
  have "skip_modifiers (skip_ws line) = skip_modifiers s1"
  proof (cases "first_word ?V (skip_ws line)")
    case None
    have "s1 = skip_ws line" unfolding s1_def None option.case ..
    then show ?thesis by simp
  next
    case (Some m)
    obtain w r where m: "m = (w, r)" by (cases m)
    note fw = Some [unfolded m]
    from first_word_Some [OF fw]
    have wr: "w \<in> set ?V" "skip_ws line = w @ r" by blast+
    have s1: "s1 = r" unfolding s1_def fw option.case prod.case ..
    from wr consider "skip_ws line = ''private'' @ r" | "skip_ws line = ''public'' @ r"
      | "skip_ws line = ''protected'' @ r" | "skip_ws line = ''internal'' @ r" by auto
    then have "\<exists>v. first_word fun_modifiers (skip_ws line) = Some (v, r)"
      by cases (simp_all add: fun_modifiers_def)
    then obtain v where "first_word fun_modifiers (skip_ws line) = Some (v, r)" ..
    then have "skip_modifiers (skip_ws line) = skip_modifiers r" by (rule skip_modifiers_some)
    with s1 show ?thesis by simp
  qed
  with nf show ?thesis by (simp add: fun_pattern_search_def Let_def)
qed

subsection \<open>Braces inside literals\<close>

lemma brace_in_literal_result:
  "extract_nodes_from_kotlin [] brace_in_literal =
     [Node ((plain_attrs ''f()'' K_function (Some 1) (Some 1))
              \<lparr>signature := Some (''fun f() = '' @ [dq])\<rparr>)
        (Some [Node ((plain_attrs ''g()'' K_function (Some 3) (Some 4))
                       \<lparr>signature := Some ''fun g()''\<rparr>) (Some [])])]"
  by code_simp

lemma letter_in_literal_result:
  "extract_nodes_from_kotlin [] letter_in_literal =
     [Node ((plain_attrs ''f()'' K_function (Some 1) (Some 2))
              \<lparr>signature := Some (''fun f() = '' @ [dq] @ ''x'' @ [dq])\<rparr>) (Some []),
      Node ((plain_attrs ''g()'' K_function (Some 3) (Some 4))
                       \<lparr>signature := Some ''fun g()''\<rparr>) (Some [])]"
  by code_simp

lemma same_cleaned: "map clean_line brace_in_literal = map clean_line letter_in_literal"
  by code_simp


text \<open>
  Claim C4 does not hold of the code.  The brace balance is computed from the cleaned
  line, but the baseline of a new scope is lowered when the raw line holds an opening
  brace.  The two files below differ in one character inside a string literal and have
  the same cleaned lines; with the brace, the scope of \<^verbatim>\<open>f\<close> gets the baseline
  \<open>-1\<close>, is never closed, and takes \<^verbatim>\<open>g\<close> as a child; with the letter, \<^verbatim>\<open>f\<close>
  closes at line 2 and \<^verbatim>\<open>g\<close> is a root.
\<close>

theorem literal_brace_shifts_baseline:
  "map clean_line brace_in_literal = map clean_line letter_in_literal
   \<and> extract_nodes_from_kotlin [] brace_in_literal =
       [Node ((plain_attrs ''f()'' K_function (Some 1) (Some 1))
                \<lparr>signature := Some (''fun f() = '' @ [dq])\<rparr>)
          (Some [Node ((plain_attrs ''g()'' K_function (Some 3) (Some 4))
                         \<lparr>signature := Some ''fun g()''\<rparr>) (Some [])])]
   \<and> extract_nodes_from_kotlin [] letter_in_literal =
       [Node ((plain_attrs ''f()'' K_function (Some 1) (Some 2))
                \<lparr>signature := Some (''fun f() = '' @ [dq] @ ''x'' @ [dq])\<rparr>) (Some []),
        Node ((plain_attrs ''g()'' K_function (Some 3) (Some 4))
                \<lparr>signature := Some ''fun g()''\<rparr>) (Some [])]"
  using same_cleaned brace_in_literal_result letter_in_literal_result by simp

subsection \<open>Runs of imports\<close>

lemma scan_line_import:
  assumes "import_pattern_match (strip line)"
  shows "scan_line st ln line =
     st\<lparr>import_start_line := (if import_start_line st = None then Some ln else import_start_line st),
        import_end_line := Some ln\<rparr>"
  using assms by (simp add: scan_line_def)

lemma blank_not_import: "strip line = [] \<Longrightarrow> \<not> import_pattern_match (strip line)"
  by (simp add: import_pattern_match_def skip_ws_def)

lemma scan_line_blank:
  assumes "strip line = []" "stack st = []"
  shows "roots (scan_line st ln line) = roots st"
    and "stack (scan_line st ln line) = []"
    and "import_start_line (scan_line st ln line) = import_start_line st"
    and "import_end_line (scan_line st ln line) = import_end_line st"
proof -
  from assms(1) have none: "class_pattern_search line = None" "fun_pattern_search line = None"
    using blank_line_no_definition by blast+
  have sl: "scan_line st ln line = scan_code_line st ln line"
    using assms(1) by (simp add: scan_line_def import_pattern_match_def skip_ws_def)
  show "roots (scan_line st ln line) = roots st"
    "stack (scan_line st ln line) = []"
    "import_start_line (scan_line st ln line) = import_start_line st"
    "import_end_line (scan_line st ln line) = import_end_line st"
    unfolding sl using assms(2)
    by (simp_all add: scan_code_line_def Let_def none new_definition_def)
qed

text \<open>The imports nodes among the nodes of a list of childless nodes.\<close>

lemma imports_of_leaf:
  assumes "nodes nn = Some []"
  shows "filter is_imports (structure_to_list_node nn) = (if is_imports nn then [nn] else [])"
  using assms by (cases nn) simp

lemma import_run_kotlin:
  assumes l1: "import_pattern_match (strip l1)"
    and l2: "strip l2 = []"
    and l3: "import_pattern_match (strip l3)"
    and l4: "\<not> import_pattern_match (strip l4)"
  shows "filter is_imports (structure_to_list (extract_nodes_from_kotlin code_content [l1, l2, l3, l4]))
           = [Node (plain_attrs ''Imports'' K_imports (Some 1) (Some 3)) (Some [])]"
proof -
  let ?imp = "Node (plain_attrs ''Imports'' K_imports (Some 1) (Some 3)) (Some [])"
  define st1 where "st1 = scan_line initial_scan_state 1 l1"
  define st2 where "st2 = scan_line st1 2 l2"
  define st3 where "st3 = scan_line st2 3 l3"
  have st1: "roots st1 = []" "stack st1 = []" "import_start_line st1 = Some 1"
    unfolding st1_def scan_line_import [OF l1] by (simp_all add: initial_scan_state_def)
  have st2: "roots st2 = []" "stack st2 = []" "import_start_line st2 = Some 1"
    unfolding st2_def using scan_line_blank [OF l2 st1(2)] st1 by simp_all
  have st3: "roots st3 = []" "stack st3 = []" "import_start_line st3 = Some 1"
    "import_end_line st3 = Some 3"
    unfolding st3_def scan_line_import [OF l3] using st2 by simp_all
  have imp: "is_imports ?imp" "nodes ?imp = Some []"
    by (simp_all add: is_imports_def plain_attrs_def)
  let ?new = "case new_definition (class_pattern_search l4) (fun_pattern_search l4) l4 4 None of
                None \<Rightarrow> [] | Some nn \<Rightarrow> [nn]"
  have new: "filter is_imports (structure_to_list ?new) = []"
  proof (cases "new_definition (class_pattern_search l4) (fun_pattern_search l4) l4 4 None")
    case None
    then show ?thesis by simp
  next
    case (Some nn)
    from new_definition_kind [OF Some] show ?thesis
      unfolding Some by (cases nn) (simp add: is_imports_def)
  qed
  have fl: "roots (flush_imports st3) = [?imp]" "stack (flush_imports st3) = []"
    "import_start_line (flush_imports st3) = None"
    using st3 by (simp_all add: flush_imports_def)
  have ex: "extract_nodes_from_kotlin code_content [l1, l2, l3, l4]
      = roots (flush_imports (scan_line st3 4 l4))"
    by (simp add: extract_nodes_from_kotlin_def st1_def st2_def st3_def)
  show ?thesis
  proof (cases "strip l4 \<noteq> [] \<and> \<not> startswith (strip l4) ''//''
                 \<and> \<not> startswith (strip l4) ''package''")
    case True
    then have sl: "scan_line st3 4 l4 = scan_code_line (flush_imports st3) 4 l4"
      using l4 by (simp add: scan_line_def)
    have "import_start_line (scan_code_line (flush_imports st3) 4 l4) = None"
      using scan_code_line_no_scope(2) [OF fl(2)] fl(3) by simp
    then have "flush_imports (scan_code_line (flush_imports st3) 4 l4)
        = scan_code_line (flush_imports st3) 4 l4"
      by (rule flush_imports_none)
    then have "extract_nodes_from_kotlin code_content [l1, l2, l3, l4] = [?imp] @ ?new"
      unfolding ex sl using scan_code_line_no_scope(1) [OF fl(2), of 4 l4] fl(1) by simp
    then show ?thesis
      using new imp by (simp add: structure_to_list_append)
  next
    case False
    then have sl: "scan_line st3 4 l4 = scan_code_line st3 4 l4"
      using l4 by (auto simp add: scan_line_def)
    have "import_start_line (scan_code_line st3 4 l4) = Some 1"
      "import_end_line (scan_code_line st3 4 l4) = Some 3"
      using scan_code_line_no_scope(2,3) [OF st3(2)] st3 by simp_all
    moreover have "roots (scan_code_line st3 4 l4) = ?new"
      using scan_code_line_no_scope(1) [OF st3(2), of 4 l4] st3(1) by simp
    ultimately have "extract_nodes_from_kotlin code_content [l1, l2, l3, l4] = ?new @ [?imp]"
      unfolding ex sl by (simp add: flush_imports_def)
    then show ?thesis
      using new imp by (simp add: structure_to_list_append)
  qed
qed

section \<open>The invariant of the scan\<close>





lemma within_starts_in: "within a c \<Longrightarrow> starts_in a c"
  by (auto simp: within_def starts_in_def split: option.splits)



lemma length_update_at [simp]: "length (update_at f p ns) = length ns"
  by (induction f p ns rule: update_at.induct) simp_all






lemma set_end_line_start [simp]: "start_line (attrs (set_end_line L n)) = start_line (attrs n)"
  by (simp add: set_end_line_def)

lemma append_child_start [simp]: "start_line (attrs (append_child x n)) = start_line (attrs n)"
  by (simp add: append_child_def)






subsection \<open>The stack as a chain of references\<close>






lemma imports_ok_update [simp]:
  "imports_ok L (st\<lparr>roots := r, stack := k, current_brace_balance := b\<rparr>) = imports_ok L st"
  by (simp add: imports_ok_def split: option.splits)








subsection \<open>From the invariant to the ranges\<close>









lemma stack_flush_imports [simp]: "stack (flush_imports st) = stack st"
  by (simp add: flush_imports_def)


section \<open>Properties of the exact-AST extractor\<close>

lemma process_node_python_no_imports:
  "list_all (\<lambda>n. \<not> is_imports n) (structure_to_list (opt_list (process_node_python s b)))"
proof (induction s b rule: process_node_python.induct)
  case (1 name lineno end_lineno decorator_list body parent_is_class)
  then have "\<forall>child \<in> set body.
      list_all (\<lambda>n. \<not> is_imports n) (structure_to_list (opt_list (process_node_python child True)))"
    by simp
  then have "list_all (\<lambda>n. \<not> is_imports n)
      (structure_to_list (concat (map (\<lambda>child. opt_list (process_node_python child True)) body)))"
    by (simp add: structure_to_list_concat list_all_iff)
  then show ?case by (simp add: opt_list_def is_imports_def)
next
  case (2 is_async name a returns lineno end_lineno decorator_list body parent_is_class)
  then have "\<forall>child \<in> set body.
      list_all (\<lambda>n. \<not> is_imports n) (structure_to_list (opt_list (process_node_python child False)))"
    by simp
  then have "list_all (\<lambda>n. \<not> is_imports n)
      (structure_to_list (concat (map (\<lambda>child. opt_list (process_node_python child False)) body)))"
    by (simp add: structure_to_list_concat list_all_iff)
  then show ?case by (simp add: opt_list_def is_imports_def)
qed (simp_all add: opt_list_def)

lemma filter_none: "list_all (\<lambda>n. \<not> P n) xs \<Longrightarrow> filter P xs = []"
  by (induction xs) simp_all

lemma top_level_other:
  "\<not> is_import_stmt s \<Longrightarrow> top_level (s # rest) cur out
     = top_level rest [] (save_imports cur out @ opt_list (process_node_python s False))"
  by (cases s) (simp_all add: is_import_stmt_def)

lemma import_run_python:
  assumes "ast_parse code_content = Some [Import i1, Import i3, s]"
    and "\<not> is_import_stmt s"
  shows "filter is_imports (structure_to_list (extract_nodes_from_python ast_parse code_content lines))
     = [Node (plain_attrs ''Imports'' K_imports (Some (imp_lineno i1)) (Some (import_end i3)))
          (Some [import_leaf i1, import_leaf i3])]"
proof -
  let ?imp = "Node (plain_attrs ''Imports'' K_imports (Some (imp_lineno i1)) (Some (import_end i3)))
          (Some [import_leaf i1, import_leaf i3])"
  have "extract_nodes_from_python ast_parse code_content lines
      = [?imp] @ opt_list (process_node_python s False)"
    using assms(2)
    by (simp add: extract_nodes_from_python_def assms(1) top_level_other save_imports_def)
  moreover have "filter is_imports (structure_to_list (opt_list (process_node_python s False))) = []"
    using process_node_python_no_imports by (rule filter_none)
  moreover have "filter is_imports (structure_to_list [?imp]) = [?imp]"
    by (simp add: is_imports_def plain_attrs_def import_leaf_def)
  ultimately show ?thesis
    by (simp only: structure_to_list_append filter_append append_Nil2)
qed

section \<open>Properties of the spanned-CST extractor\<close>

lemma as_list_simps [simp]: "as_list (One n) = [n]" "as_list (Many ns) = ns"
  by (simp_all add: as_list_def)

lemma process_node_cpp_eq:
  "process_node_cpp n parent_type =
     (case mapped_type n parent_type of
        Some (mapped, t) \<Rightarrow>
          One (Node (plain_attrs (title_or_type t mapped) mapped
                       (Some (int (start_row n) + 1)) (Some (int (end_row n) + 1)))
                 (Some (materialized (Some mapped) (children n))))
      | None \<Rightarrow> Many (materialized parent_type (children n)))"
  by (cases n) (simp add: materialized_def split: option.splits)

lemma materialized_append:
  "materialized pt (xs @ ys) = materialized pt xs @ materialized pt ys"
  by (simp add: materialized_def)

lemma materialized_Cons:
  "materialized pt (x # xs) = as_list (process_node_cpp x pt) @ materialized pt xs"
  by (simp add: materialized_def)

text \<open>
  Claim C7.  Let a namespace definition have among its children a syntax node that is
  not mapped, and let a function definition be among the children of that node.  Then
  the namespace node has the function node among its own children, as a function: the
  wrapper contributes the nodes of its children one by one, in place, and no node of its
  own.
\<close>

theorem wrapper_spliced_into_namespace:
  assumes "ts_type n = ''namespace_definition''"
    and "children n = pre @ w # post"
    and "mapped_type w (Some K_namespace) = None"
    and "children w = wpre @ f # wpost"
    and "ts_type f \<in> {''function_definition'', ''template_function''}"
  shows "process_node_cpp n parent_type =
     One (Node (plain_attrs (title_or_type (name_field n) K_namespace) K_namespace
                  (Some (int (start_row n) + 1)) (Some (int (end_row n) + 1)))
            (Some (materialized (Some K_namespace) pre
                   @ (materialized (Some K_namespace) wpre @ function_node f
                        # materialized (Some K_namespace) wpost)
                   @ materialized (Some K_namespace) post)))"
proof -
  from assms(1) have n: "mapped_type n parent_type = Some (K_namespace, name_field n)"
    by (simp add: mapped_type_def)
  from assms(5) have fm: "mapped_type f (Some K_namespace)
      = Some (K_function, map_option (\<lambda>d. d @ ''()'') (declarator f))"
    by (auto simp add: mapped_type_def)
  have "process_node_cpp f (Some K_namespace) = One (function_node f)"
    by (subst process_node_cpp_eq, subst fm) (simp add: function_node_def)
  then have f: "as_list (process_node_cpp f (Some K_namespace)) = [function_node f]"
    by simp
  have w: "as_list (process_node_cpp w (Some K_namespace))
      = materialized (Some K_namespace) wpre @ function_node f
          # materialized (Some K_namespace) wpost"
    by (subst process_node_cpp_eq, subst assms(3))
       (simp add: assms(4) materialized_append materialized_Cons f)
  show ?thesis
    by (subst process_node_cpp_eq, subst n)
       (simp add: assms(2) materialized_append materialized_Cons w)
qed

theorem wrapper_spliced_into_namespace_witness:
  "process_node_cpp namespace_sample None =
     One (Node (plain_attrs ''ns'' K_namespace (Some 1) (Some 5))
            (Some [Node (plain_attrs ''f()'' K_function (Some 2) (Some 4)) (Some [])]))"
proof -
  have "process_node_cpp namespace_sample None =
     One (Node (plain_attrs (title_or_type (name_field namespace_sample) K_namespace) K_namespace
                  (Some (int (start_row namespace_sample) + 1))
                  (Some (int (end_row namespace_sample) + 1)))
            (Some (materialized (Some K_namespace) [TsNode ''namespace_identifier'' 0 0 None None []]
                   @ (materialized (Some K_namespace) []
                       @ function_node (TsNode ''function_definition'' 1 3 (Some ''f'') None [])
                        # materialized (Some K_namespace) [])
                   @ materialized (Some K_namespace) [])))"
    by (rule wrapper_spliced_into_namespace
          [where w = "TsNode ''declaration_list'' 0 4 None None
                        [TsNode ''function_definition'' 1 3 (Some ''f'') None []]"])
       (simp_all add: namespace_sample_def mapped_type_def)
  then show ?thesis
    by (simp add: namespace_sample_def materialized_def function_node_def mapped_type_def
          title_or_type_def)
qed

section \<open>Properties of the coarse-AST extractor\<close>









section \<open>Properties of the entry point and the traversal\<close>

lemma endswith_join_item:
  assumes "CHR ''/'' \<notin> set e"
  shows "endswith (path_join d item) e \<longleftrightarrow> endswith item e"
proof -
  have key: "suffix e (x @ CHR ''/'' # item) \<longleftrightarrow> suffix e item" for x
  proof
    assume "suffix e (x @ CHR ''/'' # item)"
    then consider "suffix e (CHR ''/'' # item)" | xs' where "e = xs' @ CHR ''/'' # item"
      by (auto simp: suffix_append)
    then show "suffix e item"
    proof cases
      case 1
      then show ?thesis using assms by (auto simp: suffix_Cons)
    next
      case 2
      with assms show ?thesis by simp
    qed
  next
    assume "suffix e item"
    then show "suffix e (x @ CHR ''/'' # item)"
      by (metis suffix_appendI suffix_ConsI)
  qed
  show ?thesis
  proof (cases "d = []")
    case True
    then show ?thesis by (simp add: path_join_def)
  next
    case False
    show ?thesis
    proof (cases "endswith d ''/''")
      case True
      then obtain d' where "d = d' @ ''/''" by (auto simp: endswith_def suffix_def)
      then show ?thesis
        using key [of d'] by (simp add: path_join_def endswith_def)
    next
      case no: False
      with False show ?thesis
        using key [of d] by (simp add: path_join_def endswith_def)
    qed
  qed
qed

lemma supported_join_item:
  "supported_extension (path_join d item) \<longleftrightarrow> supported_extension item"
  by (simp add: supported_extension_def supported_extensions_def endswith_join_item)

lemma items_without_unsupported_file:
  assumes "\<not> supported_extension item"
  shows "subdirs_of (before @ (item, File content) # after) = subdirs_of (before @ after)"
    and "files_of (before @ (item, File content) # after) = files_of (before @ after)"
proof -
  have sd: "subdirs_of xs = sort_key fst (filter (\<lambda>(i, e). is_dir e)
      (filter (\<lambda>(i, e). \<not> (startswith i ''.'' \<or> i \<in> set skipped_names)) xs))" for xs
    by (simp add: subdirs_of_def visible_items_def filter_sort)
  have fl: "files_of xs = sort_key fst (filter (\<lambda>(i, e). \<not> is_dir e \<and> supported_extension i)
      (filter (\<lambda>(i, e). \<not> (startswith i ''.'' \<or> i \<in> set skipped_names)) xs))" for xs
    by (simp add: files_of_def visible_items_def filter_sort)
  show "subdirs_of (before @ (item, File content) # after) = subdirs_of (before @ after)"
    unfolding sd by (simp add: is_dir_def)
  show "files_of (before @ (item, File content) # after) = files_of (before @ after)"
    unfolding fl using assms by simp
qed

text \<open>
  Claim C8.  Let the path of a file have none of the supported extensions.  Named as the
  target of \<^verbatim>\<open>code_to_tree\<close>, the file is rejected with the error "File extension not
  supported".  Met as an entry of a directory, it is left out: the traversal returns the
  very node it returns for the directory without that entry, and it returns a node in
  every case.
\<close>

theorem unsupported_extension_asymmetry:
  assumes "\<not> supported_extension (path_join dir_path item)"
  shows "code_to_tree ps us (path_join dir_path item) (Some (File content)) opts
           = Inl (ValueError ''File extension not supported'')
       \<and> build_directory_tree ps dir_path (Dir (Some (before @ (item, File content) # after)))
           = build_directory_tree ps dir_path (Dir (Some (before @ after)))"
proof
  show "code_to_tree ps us (path_join dir_path item) (Some (File content)) opts
           = Inl (ValueError ''File extension not supported'')"
    using assms by (simp add: code_to_tree_def)
next
  from assms have "\<not> supported_extension item" by (simp add: supported_join_item)
  then show "build_directory_tree ps dir_path (Dir (Some (before @ (item, File content) # after)))
           = build_directory_tree ps dir_path (Dir (Some (before @ after)))"
    by (simp add: items_without_unsupported_file)
qed


theorem unsupported_extension_asymmetry_witness:
  "code_to_tree no_parsers plain_utils ''/repo/notes.txt'' (Some (File (Some ''to do'')))
       default_options
     = Inl (ValueError ''File extension not supported'')
   \<and> build_directory_tree no_parsers ''/repo''
       (Dir (Some ([kotlin_entry] @ (''notes.txt'', File (Some ''to do'')) # [])))
     = build_directory_tree no_parsers ''/repo'' (Dir (Some ([kotlin_entry] @ [])))"
proof -
  have p: "path_join ''/repo'' ''notes.txt'' = ''/repo/notes.txt''"
    by (simp add: path_join_def endswith_def suffix_to_prefix)
  have "\<not> supported_extension (path_join ''/repo'' ''notes.txt'')"
    unfolding p
    by (simp add: supported_extension_def supported_extensions_def endswith_def suffix_to_prefix)
  from unsupported_extension_asymmetry [OF this, of no_parsers plain_utils "Some ''to do''"
      default_options "[kotlin_entry]" "[]"]
  show ?thesis unfolding p .
qed

section \<open>Properties across the extractors\<close>

text \<open>
  Claim C5.  A Kotlin file of four lines, an import line, a blank line, an import line
  and a line that is no import, yields exactly one node of kind imports, from line 1 to
  line 3 and without children.  A Python module whose body is an import, another import
  and a statement that is no import yields exactly one node of kind imports, from the
  line of the first import to the end line of the second, with the two import
  statements as its children.  The count is over all nodes of the result.
\<close>

theorem import_run_single_node:
  assumes "import_pattern_match (strip l1)"
    and "strip l2 = []"
    and "import_pattern_match (strip l3)"
    and "\<not> import_pattern_match (strip l4)"
    and "ast_parse py_code = Some [Import i1, Import i3, s]"
    and "\<not> is_import_stmt s"
  shows "filter is_imports (structure_to_list (extract_nodes_from_kotlin kt_code [l1, l2, l3, l4]))
           = [Node (plain_attrs ''Imports'' K_imports (Some 1) (Some 3)) (Some [])]
       \<and> filter is_imports (structure_to_list (extract_nodes_from_python ast_parse py_code py_lines))
           = [Node (plain_attrs ''Imports'' K_imports (Some (imp_lineno i1)) (Some (import_end i3)))
                (Some [import_leaf i1, import_leaf i3])]"
  using import_run_kotlin [OF assms(1-4)]
    import_run_python [where ast_parse = ast_parse and code_content = py_code, OF assms(5,6)]
  by (rule conjI)

theorem import_run_single_node_witness:
  "filter is_imports (structure_to_list (extract_nodes_from_kotlin [] sample_kotlin_lines))
     = [Node (plain_attrs ''Imports'' K_imports (Some 1) (Some 3)) (Some [])]
   \<and> filter is_imports (structure_to_list (extract_nodes_from_python sample_ast_parse [] []))
     = [Node (plain_attrs ''Imports'' K_imports (Some 1) (Some 3))
          (Some [Node (plain_attrs ''import os'' K_import (Some 1) (Some 1)) (Some []),
                 Node (plain_attrs ''import sys'' K_import (Some 3) (Some 3)) (Some [])])]"
proof -
  have k: "import_pattern_match (strip ''import a.b'')" "strip [] = []"
    "import_pattern_match (strip ''import c'')" "\<not> import_pattern_match (strip ''val x = 1'')"
    by (simp_all add: import_pattern_match_def strip_def skip_ws_def is_space_def)
  have p: "sample_ast_parse [] = Some
      [Import \<lparr>imp_unparse = ''import os'', imp_lineno = 1, imp_end_lineno = Some 1\<rparr>,
       Import \<lparr>imp_unparse = ''import sys'', imp_lineno = 3, imp_end_lineno = Some 3\<rparr>,
       OtherStmt]"
    "\<not> is_import_stmt OtherStmt"
    by (simp_all add: sample_ast_parse_def sample_module_def is_import_stmt_def)
  from import_run_single_node [where ast_parse = sample_ast_parse and py_code = "[]"
      and kt_code = "[]" and py_lines = "[]", OF k p]
  show ?thesis
    by (simp add: sample_kotlin_lines_def import_leaf_def import_end_def)
qed

section \<open>Line ranges of the exact-AST extractor\<close>


lemma opt_list_simps [simp]: "opt_list None = []" "opt_list (Some x) = [x]"
  by (simp_all add: opt_list_def)












section \<open>Line ranges of the spanned-CST extractor\<close>







section \<open>Line ranges of the coarse-AST extractor\<close>







section \<open>Line ranges across the extractors\<close>




end
